theory Spec2Isabelle
  imports Main "HOL-Library.AList" "HOL-Library.Sublist"
begin

section \<open>JSON documents\<close>

text \<open>
  Resources and events are Python dictionaries obtained from JSON. A dictionary is an
  association list with the operations \<open>map_of\<close> (\<open>dict.get\<close>) and \<open>AList.update\<close>
  (\<open>d[k] = v\<close>: the value is replaced in place when the key exists, appended otherwise).
  Numbers are integers; floating point values are outside the model.
\<close>

datatype json =
    JNull
  | JBool bool
  | JNum int
  | JStr string
  | JArr "json list"
  | JObj "(string \<times> json) list"

type_synonym jdict = "(string \<times> json) list"

text \<open>Python truthiness of a JSON value, as used by \<open>data.get("id") or ...\<close>.\<close>

fun truthy :: "json \<Rightarrow> bool" where
  "truthy JNull = False"
| "truthy (JBool b) = b"
| "truthy (JNum n) = (n \<noteq> 0)"
| "truthy (JStr s) = (s \<noteq> [])"
| "truthy (JArr xs) = (xs \<noteq> [])"
| "truthy (JObj kvs) = (kvs \<noteq> [])"

section \<open>Integration engine (services/integration-engine/app/main.py)\<close>

subsection \<open>Topic patterns\<close>

text \<open>\<open>str.split(sep)\<close> for a one-character separator: one more part than separators.\<close>

fun split_on :: "char \<Rightarrow> string \<Rightarrow> string list" where
  "split_on sep [] = [[]]"
| "split_on sep (c # cs) =
     (if c = sep then [] # split_on sep cs
      else (case split_on sep cs of
              [] \<Rightarrow> [[c]]
            | p # ps \<Rightarrow> (c # p) # ps))"

text \<open>The loop \<open>for kp, pp in zip(key_parts, pattern_parts)\<close> of \<open>_matches_pattern\<close>.\<close>

fun parts_match :: "(string \<times> string) list \<Rightarrow> bool" where
  "parts_match [] = True"
| "parts_match ((kp, pp) # rest) =
     (if pp \<noteq> ''*'' \<and> kp \<noteq> pp then False else parts_match rest)"

definition matches_pattern :: "string \<Rightarrow> string \<Rightarrow> bool" where
  "matches_pattern routing_key pattern =
     (let key_parts = split_on CHR ''.'' routing_key;
          pattern_parts = split_on CHR ''.'' pattern
      in if length key_parts \<noteq> length pattern_parts then False
         else parts_match (zip key_parts pattern_parts))"

text \<open>
  \<open>ROUTING_RULES\<close> is a module-level dictionary that \<open>add_rule\<close> may change, so the rule
  table is an argument: the list of its items. \<open>_find_destinations\<close> collects a Python
  set and returns \<open>list(destinations)\<close>, whose order Python leaves open; the model keeps
  a duplicate-free list (\<open>List.union\<close> inserts the elements that are not yet there), and
  the properties proved of it speak of its elements only.
\<close>

definition ROUTING_RULES :: "(string \<times> string list) list" where
  "ROUTING_RULES =
     [(''pas.*.adt.*'', [''ehr'', ''lis'', ''ris'', ''pharmacy'', ''billing'']),
      (''ehr.servicerequest.created'', [''lis'', ''ris'']),
      (''lis.diagnosticreport.completed'', [''ehr'']),
      (''ris.diagnosticreport.completed'', [''ehr'']),
      (''pharmacy.medicationdispense.dispensed'', [''ehr'']),
      (''billing.charge.posted'', [''ehr''])]"

fun find_destinations_loop ::
  "string \<Rightarrow> (string \<times> string list) list \<Rightarrow> string list \<Rightarrow> string list" where
  "find_destinations_loop routing_key [] destinations = destinations"
| "find_destinations_loop routing_key ((pattern, dests) # rules) destinations =
     find_destinations_loop routing_key rules
       (if matches_pattern routing_key pattern then List.union dests destinations
        else destinations)"

definition find_destinations :: "(string \<times> string list) list \<Rightarrow> string \<Rightarrow> string list" where
  "find_destinations rules routing_key = find_destinations_loop routing_key rules []"

subsection \<open>Processing a message\<close>

record log_entry =
  timestamp :: string
  routing_key :: string
  message_type :: "json option"
  source :: "json option"
  event_id :: "json option"
  destinations :: "string list"
  status :: string
  error :: "string option"

text \<open>
  The router object: its log and its three counters. \<open>redis_messages\<close> is the external
  list \<open>integration:messages\<close>, \<open>None\<close> when there is no Redis client.
\<close>

record router =
  message_log :: "log_entry list"
  messages_received :: int
  messages_routed :: int
  errors :: int
  redis_messages :: "log_entry list option"

definition init_router :: router where
  "init_router = \<lparr>message_log = [], messages_received = 0, messages_routed = 0,
                   errors = 0, redis_messages = None\<rparr>"

text \<open>
  What the surroundings decide: the rule table, the service URLs, the clock, and which
  calls raise. \<open>forward_fault d\<close> is the text of the exception raised inside
  \<open>_forward_message\<close> for destination \<open>d\<close> once its URL has been found (\<open>None\<close>: the call
  returns); \<open>redis_fault\<close> is the exception of the Redis calls, if any.
\<close>

record router_env =
  rules :: "(string \<times> string list) list"
  services :: "(string \<times> string) list"
  utcnow :: string
  forward_fault :: "string \<Rightarrow> string option"
  redis_fault :: "string option"

definition forward_message :: "router_env \<Rightarrow> string \<Rightarrow> jdict \<Rightarrow> string option" where
  "forward_message env destination message =
     (case map_of (services env) destination of
        None \<Rightarrow> None
      | Some url \<Rightarrow> if url = [] then None else forward_fault env destination)"

text \<open>
  The loop over the destinations inside the \<open>try\<close> block: it stops at the first
  exception; \<open>messages_routed\<close> has been incremented once for every destination before.
\<close>

fun forward_all :: "router_env \<Rightarrow> string list \<Rightarrow> jdict \<Rightarrow> int \<Rightarrow> string option \<times> int" where
  "forward_all env [] message routed = (None, routed)"
| "forward_all env (dest # rest) message routed =
     (case forward_message env dest message of
        Some e \<Rightarrow> (Some e, routed)
      | None \<Rightarrow> forward_all env rest message (routed + 1))"

text \<open>The slice \<open>xs[-n:]\<close> for positive \<open>n\<close>.\<close>

definition last_n :: "nat \<Rightarrow> 'a list \<Rightarrow> 'a list" where
  "last_n n xs = drop (length xs - n) xs"

text \<open>
  \<open>process_message\<close>: the first component is the exception that leaves the call, if any
  (only the Redis calls after the \<open>try\<close> statement can raise one).
\<close>

definition process_message ::
  "router_env \<Rightarrow> string \<Rightarrow> jdict \<Rightarrow> router \<Rightarrow> string option \<times> router" where
  "process_message env rk message r =
     (let r1 = r\<lparr>messages_received := messages_received r + 1\<rparr>;
          log_entry0 = \<lparr>timestamp = utcnow env, routing_key = rk,
                         message_type = map_of message ''type'',
                         source = map_of message ''source'',
                         event_id = map_of message ''id'',
                         destinations = [], status = ''processing'', error = None\<rparr>;
          dests = find_destinations (rules env) rk;
          log_entry1 = log_entry0\<lparr>destinations := dests\<rparr>;
          (exc, routed) = forward_all env dests message (messages_routed r1);
          r2 = r1\<lparr>messages_routed := routed\<rparr>;
          (log_entry2, r3) =
            (case exc of
               None \<Rightarrow> (log_entry1\<lparr>status := ''completed''\<rparr>, r2)
             | Some e \<Rightarrow> (log_entry1\<lparr>status := ''error'', error := Some e\<rparr>,
                          r2\<lparr>errors := errors r2 + 1\<rparr>));
          appended = message_log r3 @ [log_entry2];
          r4 = r3\<lparr>message_log :=
                    (if length appended > 1000 then last_n 1000 appended else appended)\<rparr>
      in case redis_messages r4 of
           None \<Rightarrow> (None, r4)
         | Some stored \<Rightarrow>
             (case redis_fault env of
                Some e \<Rightarrow> (Some e, r4)
              | None \<Rightarrow> (None, r4\<lparr>redis_messages := Some (take 1000 (log_entry2 # stored))\<rparr>)))"

text \<open>The consumer calls \<open>process_message\<close> for one event after the other.\<close>

fun consume :: "router_env \<Rightarrow> (string \<times> jdict) list \<Rightarrow> router \<Rightarrow> router" where
  "consume env [] r = r"
| "consume env ((rk, message) # events) r =
     consume env events (snd (process_message env rk message r))"

section \<open>The resource store (shared/base_service.py)\<close>

subsection \<open>Python's \<open>str\<close> and \<open>int\<close> on version strings\<close>

definition digit_of :: "nat \<Rightarrow> char" where
  "digit_of d = ''0123456789'' ! d"

fun str_nat :: "nat \<Rightarrow> string" where
  "str_nat n = (if n < 10 then [digit_of n] else str_nat (n div 10) @ [digit_of (n mod 10)])"

declare str_nat.simps [simp del]

text \<open>\<open>str(i)\<close> for an integer.\<close>

definition str_int :: "int \<Rightarrow> string" where
  "str_int i = (if i < 0 then CHR ''-'' # str_nat (nat (- i)) else str_nat (nat i))"

definition digit_val :: "char \<Rightarrow> nat option" where
  "digit_val c = (let k = (of_char c :: nat) in if 48 \<le> k \<and> k \<le> 57 then Some (k - 48) else None)"

fun int_digits :: "nat \<Rightarrow> string \<Rightarrow> nat option" where
  "int_digits acc [] = Some acc"
| "int_digits acc (c # cs) =
     (case digit_val c of None \<Rightarrow> None | Some d \<Rightarrow> int_digits (10 * acc + d) cs)"

text \<open>
  \<open>int(s)\<close> for a string: an optional sign and decimal digits, \<open>None\<close> for the
  \<open>ValueError\<close>. Python also accepts surrounding white space and underscores between
  digits; the store never writes such version strings, and the model rejects them.
\<close>

definition py_int :: "string \<Rightarrow> int option" where
  "py_int s =
     (case s of
        [] \<Rightarrow> None
      | c # cs \<Rightarrow>
          if c = CHR ''-'' then
            (if cs = [] then None else map_option (\<lambda>n. - int n) (int_digits 0 cs))
          else if c = CHR ''+'' then
            (if cs = [] then None else map_option int (int_digits 0 cs))
          else map_option int (int_digits 0 s))"

text \<open>\<open>str.lower\<close> and \<open>str.upper\<close> on ASCII letters.\<close>

definition lower_char :: "char \<Rightarrow> char" where
  "lower_char c =
     (case map_of (zip ''ABCDEFGHIJKLMNOPQRSTUVWXYZ'' ''abcdefghijklmnopqrstuvwxyz'') c of
        Some l \<Rightarrow> l
      | None \<Rightarrow> c)"

definition upper_char :: "char \<Rightarrow> char" where
  "upper_char c =
     (case map_of (zip ''abcdefghijklmnopqrstuvwxyz'' ''ABCDEFGHIJKLMNOPQRSTUVWXYZ'') c of
        Some u \<Rightarrow> u
      | None \<Rightarrow> c)"

subsection \<open>The table and the service\<close>

text \<open>
  A row of \<open>fhir_resources\<close>. The primary key is the column \<open>id\<close> alone; the columns
  \<open>created_at\<close> and \<open>updated_at\<close> are written by the database and read by no operation,
  and they are left out. The width of the \<open>String(64)\<close> columns is not modelled.
\<close>

record fhir_row =
  row_id :: string
  resource_type :: string
  version_id :: string
  data :: jdict

text \<open>
  The service object with the state it works on: the table in insertion order,
  whether \<open>setup\<close> obtained a broker channel (\<open>rabbitmq_channel\<close> is not \<open>None\<close>), and the
  messages the exchange \<open>healthcare.events\<close> has received, each with its routing key.
\<close>

record fhir_service =
  service_name :: string
  supported_resources :: "string list"
  fhir_table :: "fhir_row list"
  rabbitmq_channel :: bool
  published :: "(string \<times> jdict) list"

text \<open>
  What the surroundings decide in one request: the clock (\<open>datetime.utcnow().isoformat() + "Z"\<close>)
  when the store stamps the document and when the event is built, the identifiers that
  \<open>uuid.uuid4()\<close> draws for a resource and for an event, and the exception that the
  broker calls (\<open>get_exchange\<close>, \<open>publish\<close>) raise, if any.
\<close>

record svc_env =
  clock :: string
  new_uuid :: string
  event_clock :: string
  event_uuid :: string
  broker_fault :: "string option"

datatype error =
    HTTPException nat string
  | IntegrityError
  | StatementError
  | ValueError
  | AttributeError
  | BrokerError string

definition find_row :: "fhir_service \<Rightarrow> string \<Rightarrow> string \<Rightarrow> fhir_row option" where
  "find_row svc rt rid = find (\<lambda>r. resource_type r = rt \<and> row_id r = rid) (fhir_table svc)"

definition not_found :: "string \<Rightarrow> string \<Rightarrow> error" where
  "not_found rt rid = HTTPException 404 (rt @ ''/'' @ rid @ '' not found'')"

text \<open>The three assignments that \<open>create_resource\<close> and \<open>update_resource\<close> make to the document.\<close>

definition stamp :: "json \<Rightarrow> string \<Rightarrow> string \<Rightarrow> string \<Rightarrow> jdict \<Rightarrow> jdict" where
  "stamp rid rt version now d =
     AList.update ''meta'' (JObj [(''versionId'', JStr version), (''lastUpdated'', JStr now)])
       (AList.update ''resourceType'' (JStr rt)
         (AList.update ''id'' rid d))"

text \<open>
  \<open>create_resource\<close>. The insert fails with \<open>IntegrityError\<close> when a row with the same
  primary key exists, whatever its type. Identifiers are strings; for a truthy \<open>id\<close>
  that is no string the outcome would depend on how the database driver adapts the
  value to the key column, and the model reports a \<open>StatementError\<close>.
\<close>

definition create_resource ::
  "svc_env \<Rightarrow> fhir_service \<Rightarrow> string \<Rightarrow> jdict \<Rightarrow> (error + jdict) \<times> fhir_service" where
  "create_resource env svc rt d =
     (if rt \<notin> set (supported_resources svc) then
        (Inl (HTTPException 400 (''Resource type '' @ rt @ '' not supported'')), svc)
      else
        let resource_id = (case map_of d ''id'' of
                             None \<Rightarrow> JStr (new_uuid env)
                           | Some v \<Rightarrow> if truthy v then v else JStr (new_uuid env));
            version = ''1'';
            d' = stamp resource_id rt version (clock env) d
        in case resource_id of
             JStr rid \<Rightarrow>
               if rid \<in> set (map row_id (fhir_table svc)) then (Inl IntegrityError, svc)
               else (Inr d',
                     svc\<lparr>fhir_table := fhir_table svc @
                            [\<lparr>row_id = rid, resource_type = rt, version_id = version, data = d'\<rparr>]\<rparr>)
           | _ \<Rightarrow> (Inl StatementError, svc))"

definition read_resource :: "fhir_service \<Rightarrow> string \<Rightarrow> string \<Rightarrow> error + jdict" where
  "read_resource svc rt rid =
     (case find_row svc rt rid of
        None \<Rightarrow> Inl (not_found rt rid)
      | Some resource \<Rightarrow> Inr (data resource))"

text \<open>\<open>update_resource\<close>: the row found is written back under its primary key.\<close>

definition update_resource ::
  "svc_env \<Rightarrow> fhir_service \<Rightarrow> string \<Rightarrow> string \<Rightarrow> jdict \<Rightarrow> (error + jdict) \<times> fhir_service" where
  "update_resource env svc rt rid d =
     (case find_row svc rt rid of
        None \<Rightarrow> (Inl (not_found rt rid), svc)
      | Some resource \<Rightarrow>
          (case py_int (version_id resource) of
             None \<Rightarrow> (Inl ValueError, svc)
           | Some v \<Rightarrow>
               let new_version = str_int (v + 1);
                   d' = stamp (JStr rid) rt new_version (clock env) d
               in (Inr d',
                   svc\<lparr>fhir_table :=
                          map (\<lambda>r. if row_id r = row_id resource
                                    then r\<lparr>data := d', version_id := new_version\<rparr> else r)
                              (fhir_table svc)\<rparr>)))"

definition delete_resource ::
  "fhir_service \<Rightarrow> string \<Rightarrow> string \<Rightarrow> (error + unit) \<times> fhir_service" where
  "delete_resource svc rt rid =
     (case find_row svc rt rid of
        None \<Rightarrow> (Inl (not_found rt rid), svc)
      | Some resource \<Rightarrow>
          (Inr (), svc\<lparr>fhir_table := filter (\<lambda>r. row_id r \<noteq> row_id resource) (fhir_table svc)\<rparr>))"

subsection \<open>Publishing events\<close>

text \<open>
  \<open>publish_event\<close> returns at once when there is no channel. Otherwise it builds the
  event and publishes it; no \<open>try\<close> statement surrounds the broker calls, so their
  exception leaves the function. \<open>.lower()\<close> on a \<open>resourceType\<close> that is no string raises
  \<open>AttributeError\<close>.
\<close>

definition event_type_names :: "jdict \<Rightarrow> (string \<times> string) option" where
  "event_type_names resource =
     (case map_of resource ''resourceType'' of
        None \<Rightarrow> Some (''None'', ''unknown'')
      | Some (JStr rt) \<Rightarrow> Some (rt, map lower_char rt)
      | Some _ \<Rightarrow> None)"

definition publish_event ::
  "svc_env \<Rightarrow> fhir_service \<Rightarrow> string \<Rightarrow> jdict \<Rightarrow> error option \<times> fhir_service" where
  "publish_event env svc event_type resource =
     (if \<not> rabbitmq_channel svc then (None, svc)
      else
        (case event_type_names resource of
           None \<Rightarrow> (Some AttributeError, svc)
         | Some (type_name, key_name) \<Rightarrow>
             (let event = [(''specversion'', JStr ''1.0''),
                          (''type'', JStr (''org.hl7.fhir.r4.'' @ type_name @ ''.'' @ event_type)),
                          (''source'', JStr (''/'' @ service_name svc)),
                          (''id'', JStr (event_uuid env)),
                          (''time'', JStr (event_clock env)),
                          (''datacontenttype'', JStr ''application/fhir+json''),
                          (''data'', JObj resource)];
                  rkey = service_name svc @ ''.'' @ key_name @ ''.'' @ event_type
              in (case broker_fault env of
                    Some e \<Rightarrow> (Some (BrokerError e), svc)
                  | None \<Rightarrow> (None, svc\<lparr>published := published svc @ [(rkey, event)]\<rparr>)))))"

text \<open>
  The endpoints \<open>POST /fhir/r4/{resource_type}\<close> and \<open>PUT /fhir/r4/{resource_type}/{resource_id}\<close>
  of \<open>create_fhir_app\<close>: the store operation, then the event, then the response (status
  code and content). An exception of either call ends the request.
\<close>

definition create_endpoint ::
  "svc_env \<Rightarrow> fhir_service \<Rightarrow> string \<Rightarrow> jdict \<Rightarrow> (error + nat \<times> jdict) \<times> fhir_service" where
  "create_endpoint env svc rt d =
     (case create_resource env svc rt d of
        (Inl e, svc1) \<Rightarrow> (Inl e, svc1)
      | (Inr result, svc1) \<Rightarrow>
          (case publish_event env svc1 ''created'' result of
             (Some e, svc2) \<Rightarrow> (Inl e, svc2)
           | (None, svc2) \<Rightarrow> (Inr (201, result), svc2)))"

definition update_endpoint ::
  "svc_env \<Rightarrow> fhir_service \<Rightarrow> string \<Rightarrow> string \<Rightarrow> jdict
     \<Rightarrow> (error + nat \<times> jdict) \<times> fhir_service" where
  "update_endpoint env svc rt rid d =
     (case update_resource env svc rt rid d of
        (Inl e, svc1) \<Rightarrow> (Inl e, svc1)
      | (Inr result, svc1) \<Rightarrow>
          (case publish_event env svc1 ''updated'' result of
             (Some e, svc2) \<Rightarrow> (Inl e, svc2)
           | (None, svc2) \<Rightarrow> (Inr (200, result), svc2)))"

subsection \<open>Search\<close>

text \<open>
  The filters of \<open>search_resources\<close> are SQL expressions over the JSONB column. Three
  operators occur. \<open>data[k]\<close> (\<open>->\<close>) selects a member of an object and is NULL on
  anything else. \<open>.astext\<close> (\<open>->>\<close>) gives a string member as it is, NULL for JSON
  null, and the database's text rendering of any other value: that rendering is the
  argument \<open>render\<close>. A filter whose value is NULL rejects the row.
\<close>

definition jget :: "json option \<Rightarrow> string \<Rightarrow> json option" where
  "jget j k = (case j of Some (JObj kvs) \<Rightarrow> map_of kvs k | _ \<Rightarrow> None)"

definition astext :: "(json \<Rightarrow> string) \<Rightarrow> json option \<Rightarrow> string option" where
  "astext render j =
     (case j of
        None \<Rightarrow> None
      | Some JNull \<Rightarrow> None
      | Some (JStr s) \<Rightarrow> Some s
      | Some v \<Rightarrow> Some (render v))"

text \<open>
  \<open>.contains(value)\<close> on a text expression is \<open>LIKE '%' || value || '%'\<close>. The value is
  not escaped, so in it \<open>%\<close> stands for any run of characters, \<open>_\<close> for any one
  character, and a backslash makes the character after it literal. A pattern from
  \<open>contains\<close> ends with \<open>%\<close>, so it never ends with a lone backslash.
\<close>

fun like_match :: "string \<Rightarrow> string \<Rightarrow> bool" where
  "like_match [] s = (s = [])"
| "like_match (p # ps) s =
     (if p = CHR ''%'' then
        (like_match ps s \<or> (case s of [] \<Rightarrow> False | c # cs \<Rightarrow> like_match (p # ps) cs))
      else if p = CHR ''_'' then
        (case s of [] \<Rightarrow> False | c # cs \<Rightarrow> like_match ps cs)
      else if p = CHR 0x5C then
        (case ps of
           [] \<Rightarrow> False
         | q # qs \<Rightarrow> (case s of [] \<Rightarrow> False | c # cs \<Rightarrow> c = q \<and> like_match qs cs))
      else
        (case s of [] \<Rightarrow> False | c # cs \<Rightarrow> c = p \<and> like_match ps cs))"

declare like_match.simps [simp del]

definition text_contains :: "string option \<Rightarrow> string \<Rightarrow> bool" where
  "text_contains column v =
     (case column of None \<Rightarrow> False | Some s \<Rightarrow> like_match (''%'' @ v @ ''%'') s)"

text \<open>
  \<open>.contains(v)\<close> on a JSONB expression is the containment operator \<open>@>\<close>: an object
  contains an object when each of its members is contained in the member of the same
  name, an array contains an array when each of its elements is contained in some
  element, scalars are contained in equal scalars only. (The right-hand sides used
  here are arrays, so the exception for a scalar right-hand side does not arise.)
\<close>

fun jsonb_contains :: "json \<Rightarrow> json \<Rightarrow> bool" where
  "jsonb_contains (JObj kvs) (JObj want) =
     list_all (\<lambda>kw. list_ex (\<lambda>kv. fst kv = fst kw \<and> jsonb_contains (snd kv) (snd kw)) kvs) want"
| "jsonb_contains (JArr xs) (JArr want) =
     list_all (\<lambda>w. list_ex (\<lambda>x. jsonb_contains x w) xs) want"
| "jsonb_contains a b = (a = b)"

definition json_contains :: "json option \<Rightarrow> json \<Rightarrow> bool" where
  "json_contains column v = (case column of None \<Rightarrow> False | Some j \<Rightarrow> jsonb_contains j v)"

text \<open>The \<open>if\<close>/\<open>elif\<close> chain: the filter that one parameter adds to the query.\<close>

definition param_filter :: "(json \<Rightarrow> string) \<Rightarrow> string \<Rightarrow> string \<Rightarrow> jdict \<Rightarrow> bool" where
  "param_filter render key v d =
     (if key = ''patient'' then
        astext render (jget (map_of d ''subject'') ''reference'') = Some (''Patient/'' @ v)
      else if key = ''subject'' then
        text_contains (astext render (jget (map_of d ''subject'') ''reference'')) v
      else if key = ''status'' then
        astext render (map_of d ''status'') = Some v
      else if key = ''identifier'' then
        json_contains (map_of d ''identifier'') (JArr [JObj [(''value'', JStr v)]])
      else if key = ''category'' then
        json_contains (map_of d ''category'')
          (JArr [JObj [(''coding'', JArr [JObj [(''code'', JStr v)]])]])
      else if key = ''code'' then
        json_contains (jget (map_of d ''code'') ''coding'') (JArr [JObj [(''code'', JStr v)]])
      else True)"

definition startswith_underscore :: "string \<Rightarrow> bool" where
  "startswith_underscore key = (case key of [] \<Rightarrow> False | c # cs \<Rightarrow> c = CHR ''_'')"

text \<open>The loop \<open>for key, value in params.items()\<close> over the query built so far.\<close>

fun apply_filters ::
  "(json \<Rightarrow> string) \<Rightarrow> (string \<times> string option) list \<Rightarrow> fhir_row list \<Rightarrow> fhir_row list" where
  "apply_filters render [] query = query"
| "apply_filters render ((key, val) # params) query =
     (if startswith_underscore key then apply_filters render params query
      else (case val of
              None \<Rightarrow> apply_filters render params query
            | Some v \<Rightarrow>
                apply_filters render params
                  (filter (\<lambda>r. param_filter render key v (data r)) query)))"

record search_bundle =
  bundle_resourceType :: string
  bundle_type :: string
  total :: int
  link :: "(string \<times> string) list"
  entry :: "(string \<times> jdict) list"

text \<open>
  \<open>search_resources\<close>. The database rejects a negative \<open>LIMIT\<close> or \<open>OFFSET\<close>, and the
  endpoint passes \<open>_count\<close> and \<open>_offset\<close> on as they come.
\<close>

definition search_resources ::
  "(json \<Rightarrow> string) \<Rightarrow> fhir_service \<Rightarrow> string \<Rightarrow> (string \<times> string option) list
     \<Rightarrow> int \<Rightarrow> int \<Rightarrow> error + search_bundle" where
  "search_resources render svc rt params limit offset =
     (let query = apply_filters render params
                    (filter (\<lambda>r. resource_type r = rt) (fhir_table svc));
          count = int (length query)
      in if limit < 0 \<or> offset < 0 then Inl StatementError
         else
           Inr \<lparr>bundle_resourceType = ''Bundle'', bundle_type = ''searchset'',
                total = count,
                link = [(''self'', ''/fhir/r4/'' @ rt)],
                entry = map (\<lambda>r. (rt @ ''/'' @ row_id r, data r))
                          (take (nat limit) (drop (nat offset) query))\<rparr>)"

text \<open>
  The filter that the specification words give for one parameter: as the code's, but
  \<open>subject\<close> is plain substring containment in the reference (\<open>sublist\<close>: the value
  occurs in it as a contiguous run of characters).
\<close>

definition spec_param_filter :: "(json \<Rightarrow> string) \<Rightarrow> string \<Rightarrow> string \<Rightarrow> jdict \<Rightarrow> bool" where
  "spec_param_filter render key v d =
     (if key = ''subject'' then
        (case astext render (jget (map_of d ''subject'') ''reference'') of
           None \<Rightarrow> False
         | Some s \<Rightarrow> sublist v s)
      else param_filter render key v d)"

text \<open>
  The specification's total: the number of rows of the type that satisfy the filter of
  every parameter that is present (not \<open>None\<close>) and does not start with an underscore.
\<close>

definition spec_total ::
  "(json \<Rightarrow> string) \<Rightarrow> fhir_service \<Rightarrow> string \<Rightarrow> (string \<times> string option) list \<Rightarrow> int" where
  "spec_total render svc rt params =
     int (length (filter
       (\<lambda>r. resource_type r = rt \<and>
            list_all (\<lambda>(key, val). startswith_underscore key \<or>
                        (case val of None \<Rightarrow> True
                                   | Some v \<Rightarrow> spec_param_filter render key v (data r)))
                     params)
       (fhir_table svc)))"

text \<open>The characters that \<open>LIKE\<close> does not take literally.\<close>

definition like_special :: "char \<Rightarrow> bool" where
  "like_special c \<longleftrightarrow> c = CHR ''%'' \<or> c = CHR ''_'' \<or> c = CHR 0x5C"

subsection \<open>The capability statement\<close>

definition capability_resource :: "string \<Rightarrow> json" where
  "capability_resource rt =
     JObj [(''type'', JStr rt),
           (''interaction'',
              JArr [JObj [(''code'', JStr ''read'')],
                    JObj [(''code'', JStr ''vread'')],
                    JObj [(''code'', JStr ''update'')],
                    JObj [(''code'', JStr ''delete'')],
                    JObj [(''code'', JStr ''create'')],
                    JObj [(''code'', JStr ''search-type'')]]),
           (''versioning'', JStr ''versioned''),
           (''readHistory'', JBool False),
           (''updateCreate'', JBool True),
           (''conditionalCreate'', JBool False),
           (''conditionalRead'', JStr ''not-supported''),
           (''conditionalUpdate'', JBool False),
           (''conditionalDelete'', JStr ''not-supported''),
           (''searchParam'',
              JArr [JObj [(''name'', JStr ''_id''), (''type'', JStr ''token'')],
                    JObj [(''name'', JStr ''identifier''), (''type'', JStr ''token'')],
                    JObj [(''name'', JStr ''patient''), (''type'', JStr ''reference'')],
                    JObj [(''name'', JStr ''status''), (''type'', JStr ''token'')]])]"

definition get_capability_statement :: "svc_env \<Rightarrow> fhir_service \<Rightarrow> json" where
  "get_capability_statement env svc =
     (let resources = map capability_resource (supported_resources svc)
      in JObj [(''resourceType'', JStr ''CapabilityStatement''),
               (''id'', JStr (service_name svc @ ''-capability'')),
               (''status'', JStr ''active''),
               (''date'', JStr (clock env)),
               (''kind'', JStr ''instance''),
               (''software'',
                  JObj [(''name'', JStr (''Healthcare POC - '' @ map upper_char (service_name svc))),
                        (''version'', JStr ''1.0.0'')]),
               (''fhirVersion'', JStr ''4.0.1''),
               (''format'', JArr [JStr ''json'']),
               (''rest'', JArr [JObj [(''mode'', JStr ''server''),
                                     (''resource'', JArr resources)]])])"

text \<open>Reading the statement: members, array elements, and the lists a client looks at.\<close>

definition member :: "string \<Rightarrow> json \<Rightarrow> json" where
  "member k j = (case j of JObj kvs \<Rightarrow> (case map_of kvs k of Some v \<Rightarrow> v | None \<Rightarrow> JNull)
                         | _ \<Rightarrow> JNull)"

definition elements :: "json \<Rightarrow> json list" where
  "elements j = (case j of JArr xs \<Rightarrow> xs | _ \<Rightarrow> [])"

definition advertised_resources :: "json \<Rightarrow> json list" where
  "advertised_resources cap = concat (map (\<lambda>rest. elements (member ''resource'' rest))
                                          (elements (member ''rest'' cap)))"

definition advertised_interactions :: "json \<Rightarrow> json list" where
  "advertised_interactions res = map (member ''code'') (elements (member ''interaction'' res))"

definition advertised_search_params :: "json \<Rightarrow> json list" where
  "advertised_search_params res = map (member ''name'') (elements (member ''searchParam'' res))"

subsection \<open>Sequences of store operations\<close>

datatype store_op =
    Create svc_env string jdict
  | Update svc_env string string jdict
  | Delete string string
  | Publish svc_env string jdict

fun apply_op :: "fhir_service \<Rightarrow> store_op \<Rightarrow> fhir_service" where
  "apply_op svc (Create env rt d) = snd (create_resource env svc rt d)"
| "apply_op svc (Update env rt rid d) = snd (update_resource env svc rt rid d)"
| "apply_op svc (Delete rt rid) = snd (delete_resource svc rt rid)"
| "apply_op svc (Publish env et res) = snd (publish_event env svc et res)"

text \<open>The service after a sequence of calls, started on an empty table.\<close>

definition new_service :: "string \<Rightarrow> string list \<Rightarrow> bool \<Rightarrow> fhir_service" where
  "new_service name supported channel =
     \<lparr>service_name = name, supported_resources = supported, fhir_table = [],
      rabbitmq_channel = channel, published = []\<rparr>"

definition run_ops :: "fhir_service \<Rightarrow> store_op list \<Rightarrow> fhir_service" where
  "run_ops svc ops = foldl apply_op svc ops"

subsection \<open>Well-formed tables\<close>

text \<open>
  What every row written by \<open>create_resource\<close> and \<open>update_resource\<close> satisfies: its
  version is the decimal string of a positive number, and its document carries the
  row's key, type and version.
\<close>

definition row_ok :: "fhir_row \<Rightarrow> bool" where
  "row_ok r \<longleftrightarrow>
     (case py_int (version_id r) of None \<Rightarrow> False | Some n \<Rightarrow> 1 \<le> n)
     \<and> map_of (data r) ''id'' = Some (JStr (row_id r))
     \<and> map_of (data r) ''resourceType'' = Some (JStr (resource_type r))
     \<and> jget (map_of (data r) ''meta'') ''versionId'' = Some (JStr (version_id r))"

definition table_ok :: "fhir_row list \<Rightarrow> bool" where
  "table_ok rows \<longleftrightarrow> distinct (map row_id rows) \<and> list_all row_ok rows"

section \<open>Examples\<close>

text \<open>A router whose forwarding to \<open>ehr\<close> raises an exception.\<close>

definition failing_env :: router_env where
  "failing_env = \<lparr>rules = ROUTING_RULES,
                  services = [(''ehr'', ''http://localhost:8001'')],
                  utcnow = ''2024-01-01T00:00:00Z'',
                  forward_fault = (\<lambda>d. if d = ''ehr'' then Some ''broken pipe'' else None),
                  redis_fault = None\<rparr>"

text \<open>
  A service without and with a broker channel, surroundings whose broker calls
  succeed or raise, and a patient. The short strings \<open>u-1\<close> and \<open>u-2\<close> stand for the
  identifiers that \<open>uuid.uuid4()\<close> draws.
\<close>

definition example_env :: svc_env where
  "example_env = \<lparr>clock = ''T1'', new_uuid = ''u-1'', event_clock = ''T2'', event_uuid = ''u-2'',
                   broker_fault = None\<rparr>"

definition broker_down_env :: svc_env where
  "broker_down_env = \<lparr>clock = ''T1'', new_uuid = ''u-1'', event_clock = ''T2'', event_uuid = ''u-2'',
                       broker_fault = Some ''connection lost''\<rparr>"

definition example_service :: fhir_service where
  "example_service = new_service ''ehr'' [''Patient'', ''Observation''] False"

definition connected_service :: fhir_service where
  "connected_service = new_service ''ehr'' [''Patient'', ''Observation''] True"

definition example_patient :: jdict where
  "example_patient = [(''gender'', JStr ''female''), (''birthDate'', JStr ''1980-01-01'')]"

definition stored_patient :: jdict where
  "stored_patient =
     [(''gender'', JStr ''female''), (''birthDate'', JStr ''1980-01-01''),
      (''id'', JStr ''u-1''), (''resourceType'', JStr ''Patient''),
      (''meta'', JObj [(''versionId'', JStr ''1''), (''lastUpdated'', JStr ''T1'')])]"

definition patient_row :: fhir_row where
  "patient_row = \<lparr>row_id = ''u-1'', resource_type = ''Patient'', version_id = ''1'',
                   data = stored_patient\<rparr>"

definition service_with_patient :: fhir_service where
  "service_with_patient = example_service\<lparr>fhir_table := [patient_row]\<rparr>"

definition gender_only :: jdict where
  "gender_only = [(''gender'', JStr ''male'')]"

definition updated_patient :: jdict where
  "updated_patient =
     [(''gender'', JStr ''male''),
      (''id'', JStr ''u-1''), (''resourceType'', JStr ''Patient''),
      (''meta'', JObj [(''versionId'', JStr ''2''), (''lastUpdated'', JStr ''T1'')])]"

text \<open>An observation that asks for the id of the stored patient.\<close>

definition observation_with_patient_id :: jdict where
  "observation_with_patient_id = [(''id'', JStr ''u-1''), (''status'', JStr ''final'')]"

text \<open>
  An observation about patient 1, and a text rendering for values that are no strings
  (the examples have none in the fields that are searched).
\<close>

definition observation_row :: fhir_row where
  "observation_row =
     \<lparr>row_id = ''o1'', resource_type = ''Observation'', version_id = ''1'',
      data = [(''status'', JStr ''final''),
              (''subject'', JObj [(''reference'', JStr ''Patient/1'')]),
              (''id'', JStr ''o1''), (''resourceType'', JStr ''Observation''),
              (''meta'', JObj [(''versionId'', JStr ''1''), (''lastUpdated'', JStr ''T1'')])]\<rparr>"

definition service_with_observation :: fhir_service where
  "service_with_observation = example_service\<lparr>fhir_table := [observation_row]\<rparr>"

definition no_render :: "json \<Rightarrow> string" where
  "no_render j = []"

section \<open>Properties of the integration engine\<close>

subsection \<open>Matching and destinations\<close>

lemma split_on_not_empty: "split_on sep s \<noteq> []"
  by (induction s) (auto split: list.splits)

lemma split_on_length: "length (split_on sep s) = Suc (length (filter (\<lambda>c. c = sep) s))"
  by (induction s) (auto split: list.splits simp: split_on_not_empty)

lemma parts_match_iff:
  "parts_match zs \<longleftrightarrow> (\<forall>(kp, pp) \<in> set zs. pp = ''*'' \<or> kp = pp)"
  by (induction zs rule: parts_match.induct) auto

lemma matches_pattern_iff:
  "matches_pattern k p \<longleftrightarrow>
     length (split_on CHR ''.'' k) = length (split_on CHR ''.'' p) \<and>
     (\<forall>i < length (split_on CHR ''.'' p).
        split_on CHR ''.'' p ! i = ''*'' \<or> split_on CHR ''.'' k ! i = split_on CHR ''.'' p ! i)"
  unfolding matches_pattern_def Let_def parts_match_iff
  by (auto simp: set_zip)

lemma find_destinations_loop_set:
  "set (find_destinations_loop k rs acc) =
     set acc \<union> (\<Union>r \<in> {r \<in> set rs. matches_pattern k (fst r)}. set (snd r))"
  by (induction k rs acc rule: find_destinations_loop.induct) auto

lemma find_destinations_loop_distinct:
  "distinct acc \<Longrightarrow> distinct (find_destinations_loop k rs acc)"
  by (induction k rs acc rule: find_destinations_loop.induct) auto

lemma find_destinations_distinct: "distinct (find_destinations rs k)"
  by (simp add: find_destinations_def find_destinations_loop_distinct)

lemma adt_pattern_matches: "matches_pattern ''pas.encounter.adt.a01'' ''pas.*.adt.*''"
  by (simp add: matches_pattern_def)

lemma adt_pattern_three_segments: "\<not> matches_pattern ''pas.encounter.adt'' ''pas.*.adt.*''"
  by (simp add: matches_pattern_def)

lemma adt_destinations:
  "set (find_destinations ROUTING_RULES ''pas.encounter.adt.a01'')
     = {''ehr'', ''lis'', ''ris'', ''pharmacy'', ''billing''}"
  by (auto simp: find_destinations_def ROUTING_RULES_def matches_pattern_def
                 List.union_def List.insert_def)

text \<open>
  Claim C5. For every topic and rule table, the destinations the router finds are exactly
  the union of the destinations of the rules whose pattern matches the topic. A pattern
  matches a topic if and only if both split at the dots into the same number of
  segments and every segment of the pattern is \<open>*\<close> or equal to the topic's segment
  at the same position. The topic \<open>pas.encounter.adt.a01\<close> matches \<open>pas.*.adt.*\<close> and is
  routed, under the configured rules, to that rule's five destinations; the
  three-segment topic \<open>pas.encounter.adt\<close> does not match that pattern.
\<close>

theorem router_destinations_union:
  "set (find_destinations rule_table topic)
     = (\<Union>r \<in> {r \<in> set rule_table. matches_pattern topic (fst r)}. set (snd r))
   \<and> (matches_pattern topic pattern \<longleftrightarrow>
        length (split_on CHR ''.'' topic) = length (split_on CHR ''.'' pattern) \<and>
        (\<forall>i < length (split_on CHR ''.'' pattern).
           split_on CHR ''.'' pattern ! i = ''*''
           \<or> split_on CHR ''.'' topic ! i = split_on CHR ''.'' pattern ! i))
   \<and> matches_pattern ''pas.encounter.adt.a01'' ''pas.*.adt.*''
   \<and> set (find_destinations ROUTING_RULES ''pas.encounter.adt.a01'')
        = {''ehr'', ''lis'', ''ris'', ''pharmacy'', ''billing''}
   \<and> \<not> matches_pattern ''pas.encounter.adt'' ''pas.*.adt.*''"
proof (intro conjI)
  show "set (find_destinations rule_table topic)
     = (\<Union>r \<in> {r \<in> set rule_table. matches_pattern topic (fst r)}. set (snd r))"
    by (simp add: find_destinations_def find_destinations_loop_set)
  show "matches_pattern topic pattern \<longleftrightarrow>
        length (split_on CHR ''.'' topic) = length (split_on CHR ''.'' pattern) \<and>
        (\<forall>i < length (split_on CHR ''.'' pattern).
           split_on CHR ''.'' pattern ! i = ''*''
           \<or> split_on CHR ''.'' topic ! i = split_on CHR ''.'' pattern ! i)"
    by (rule matches_pattern_iff)
  show "matches_pattern ''pas.encounter.adt.a01'' ''pas.*.adt.*''"
    by (rule adt_pattern_matches)
  show "set (find_destinations ROUTING_RULES ''pas.encounter.adt.a01'')
        = {''ehr'', ''lis'', ''ris'', ''pharmacy'', ''billing''}"
    by (rule adt_destinations)
  show "\<not> matches_pattern ''pas.encounter.adt'' ''pas.*.adt.*''"
    by (rule adt_pattern_three_segments)
qed

theorem router_destinations_union_witness:
  "set (find_destinations [(''a.*'', [''x'', ''y'']), (''c.d'', [''z''])] ''a.b'') = {''x'', ''y''}
   \<and> matches_pattern ''a.b'' ''a.*''"
proof -
  note u = router_destinations_union [of "[(''a.*'', [''x'', ''y'']), (''c.d'', [''z''])]" "''a.b''" "''a.*''"]
  have s1: "split_on CHR ''.'' ''a.b'' = [''a'', ''b'']"
    by simp
  have s2: "split_on CHR ''.'' ''a.*'' = [''a'', ''*'']"
    by simp
  have "\<forall>i<2. [''a'', ''*''] ! i = ''*'' \<or> [''a'', ''b''] ! i = [''a'', ''*''] ! i"
    by (simp add: less_Suc_eq numeral_2_eq_2)
  then have m: "matches_pattern ''a.b'' ''a.*''"
    unfolding u [THEN conjunct2, THEN conjunct1] s1 s2 by simp
  have n: "\<not> matches_pattern ''a.b'' ''c.d''"
    by (simp add: matches_pattern_def)
  have "set (find_destinations [(''a.*'', [''x'', ''y'']), (''c.d'', [''z''])] ''a.b'') = {''x'', ''y''}"
    unfolding u [THEN conjunct1] using m n by auto
  with m show ?thesis by simp
qed

subsection \<open>The message log and the counters\<close>

lemma last_n_length: "length (last_n n xs) \<le> n"
  by (simp add: last_n_def)

lemma last_n_short: "length xs \<le> n \<Longrightarrow> last_n n xs = xs"
  by (simp add: last_n_def)

lemma last_n_append: "last_n n (last_n n xs @ ys) = last_n n (xs @ ys)"
proof (cases "length xs \<le> n")
  case True
  then show ?thesis by (simp add: last_n_def)
next
  case False
  then have "length xs - n + n = length xs" by simp
  with False show ?thesis
    by (simp add: last_n_def add.commute)
qed

lemma last_n_full: "length xs = n \<Longrightarrow> 0 < n \<Longrightarrow> last_n n (xs @ [x]) = tl xs @ [x]"
  by (cases xs) (simp_all add: last_n_def)

text \<open>
  The forwarding loop raises the exception of the first destination whose forwarding
  raises; without an exception it has counted every destination.
\<close>

lemma forward_all_no_exception:
  "fst (forward_all env ds m n) = None \<longleftrightarrow> (\<forall>d \<in> set ds. forward_message env d m = None)"
  by (induction ds arbitrary: n) (auto split: option.splits)

lemma forward_all_routed:
  "fst (forward_all env ds m n) = None \<Longrightarrow> snd (forward_all env ds m n) = n + int (length ds)"
  by (induction ds arbitrary: n) (auto split: option.splits)

lemma forward_all_exception:
  "fst (forward_all env ds m n) = Some e \<Longrightarrow> \<exists>d \<in> set ds. forward_message env d m = Some e"
  by (induction ds arbitrary: n) (auto split: option.splits)

lemma process_message_outcome:
  assumes "process_message env rk m r = (out, r')"
      and "forward_all env (find_destinations (rules env) rk) m (messages_routed r) = (exc, routed)"
  shows "messages_received r' = messages_received r + 1
     \<and> messages_routed r' = routed
     \<and> errors r' = (if exc = None then errors r else errors r + 1)
     \<and> out = (if redis_messages r = None then None else redis_fault env)
     \<and> (\<exists>entry. message_log r' = last_n 1000 (message_log r @ [entry])
           \<and> routing_key entry = rk
           \<and> destinations entry = find_destinations (rules env) rk
           \<and> status entry = (if exc = None then ''completed'' else ''error'')
           \<and> error entry = exc)"
  using assms
  by (auto simp: process_message_def Let_def last_n_def split: prod.splits option.splits)

lemma process_message_log:
  "\<exists>entry. message_log (snd (process_message env rk m r)) = last_n 1000 (message_log r @ [entry])
     \<and> routing_key entry = rk"
proof -
  obtain out r' where p: "process_message env rk m r = (out, r')"
    by (cases "process_message env rk m r")
  obtain exc routed where
    f: "forward_all env (find_destinations (rules env) rk) m (messages_routed r) = (exc, routed)"
    by (cases "forward_all env (find_destinations (rules env) rk) m (messages_routed r)")
  from process_message_outcome [OF p f] p show ?thesis by auto
qed

lemma consume_log:
  "length (message_log r) \<le> 1000 \<Longrightarrow>
   \<exists>entries. map routing_key entries = map fst events \<and>
      message_log (consume env events r) = last_n 1000 (message_log r @ entries)"
proof (induction events arbitrary: r)
  case Nil
  then show ?case by (simp add: last_n_def)
next
  case (Cons ev events)
  obtain rk m where ev: "ev = (rk, m)" by (cases ev)
  let ?r = "snd (process_message env rk m r)"
  obtain e where e: "message_log ?r = last_n 1000 (message_log r @ [e])"
     "routing_key e = rk"
    using process_message_log by blast
  then have "length (message_log ?r) \<le> 1000" by (simp add: last_n_length)
  then obtain es where es: "map routing_key es = map fst events"
     "message_log (consume env events ?r) = last_n 1000 (message_log ?r @ es)"
    using Cons.IH by blast
  have "last_n 1000 (last_n 1000 (message_log r @ [e]) @ es)
      = last_n 1000 (message_log r @ e # es)"
    by (simp add: last_n_append)
  with e es ev show ?case
    by (intro exI[of _ "e # es"]) simp
qed

text \<open>
  Claim C6. Whatever happens while the destinations of a consumed event are found and
  the event is forwarded, \<open>process_message\<close> adds one to \<open>messages_received\<close> and appends
  one log entry. If forwarding raised an exception, that entry has the status \<open>error\<close>
  and carries the text of the exception, and \<open>errors\<close> grows by one; otherwise the
  entry has the status \<open>completed\<close> and \<open>errors\<close> is unchanged. The exception does not
  leave \<open>process_message\<close>: the call raises only what the Redis calls after the \<open>try\<close>
  statement raise.
\<close>

theorem process_message_catches:
  assumes "process_message env rk m r = (out, r')"
      and "forward_all env (find_destinations (rules env) rk) m (messages_routed r) = (exc, routed)"
  shows "messages_received r' = messages_received r + 1
     \<and> (\<exists>entry. message_log r' = last_n 1000 (message_log r @ [entry])
           \<and> routing_key entry = rk
           \<and> (\<forall>e. exc = Some e \<longrightarrow>
                 status entry = ''error'' \<and> error entry = Some e \<and> errors r' = errors r + 1)
           \<and> (exc = None \<longrightarrow>
                 status entry = ''completed'' \<and> error entry = None \<and> errors r' = errors r))
     \<and> out = (if redis_messages r = None then None else redis_fault env)"
  using process_message_outcome [OF assms] by auto

theorem process_message_catches_witness:
  "fst (process_message failing_env ''lis.diagnosticreport.completed'' [] init_router) = None
   \<and> messages_received
       (snd (process_message failing_env ''lis.diagnosticreport.completed'' [] init_router)) = 1
   \<and> errors
       (snd (process_message failing_env ''lis.diagnosticreport.completed'' [] init_router)) = 1
   \<and> map status (message_log
       (snd (process_message failing_env ''lis.diagnosticreport.completed'' [] init_router)))
       = [''error'']"
proof -
  let ?k = "''lis.diagnosticreport.completed''"
  let ?p = "process_message failing_env ?k [] init_router"
  have d: "find_destinations (rules failing_env) ?k = [''ehr'']"
    by (simp add: failing_env_def find_destinations_def ROUTING_RULES_def matches_pattern_def
                  List.union_def List.insert_def)
  have f: "forward_all failing_env (find_destinations (rules failing_env) ?k) []
             (messages_routed init_router) = (Some ''broken pipe'', 0)"
    by (simp add: d) (simp add: failing_env_def forward_message_def init_router_def)
  have p: "?p = (fst ?p, snd ?p)" by simp
  note c = process_message_catches [OF p f]
  have i: "messages_received init_router = 0" "errors init_router = 0"
    "redis_messages init_router = None" "message_log init_router = []"
    by (simp_all add: init_router_def)
  from c have c1: "messages_received (snd ?p) = 1"
    unfolding i by simp
  from c have c2: "fst ?p = None"
    unfolding i by simp
  from c obtain entry where e: "message_log (snd ?p) = last_n 1000 ([] @ [entry])"
    "status entry = ''error''" "errors (snd ?p) = 0 + 1"
    unfolding i by blast
  from e have c3: "map status (message_log (snd ?p)) = [''error'']"
    by (simp add: last_n_def)
  from e c1 c2 c3 show ?thesis
    by simp
qed

text \<open>
  Claim C7. After any call of \<open>process_message\<close> the in-memory log holds at most 1000
  entries. The call appends its entry to the log; a log of fewer than 1000 entries
  keeps all of them, a log of 1000 entries loses its oldest one, and in general the
  last 1000 entries remain in their order. Over a run of the consumer the log is the
  last 1000 of the entries it had (at most 1000) followed by one entry per event, in
  the order of arrival.
\<close>

theorem message_log_bounded:
  "length (message_log (snd (process_message env rk m r))) \<le> 1000
   \<and> (\<exists>entry. routing_key entry = rk
        \<and> message_log (snd (process_message env rk m r)) = last_n 1000 (message_log r @ [entry])
        \<and> (length (message_log r) < 1000 \<longrightarrow>
              message_log (snd (process_message env rk m r)) = message_log r @ [entry])
        \<and> (length (message_log r) = 1000 \<longrightarrow>
              message_log (snd (process_message env rk m r)) = tl (message_log r) @ [entry]))
   \<and> (length (message_log r) \<le> 1000 \<longrightarrow>
        (\<exists>entries. map routing_key entries = map fst events
           \<and> message_log (consume env events r) = last_n 1000 (message_log r @ entries)))"
proof -
  obtain entry where e: "routing_key entry = rk"
     "message_log (snd (process_message env rk m r)) = last_n 1000 (message_log r @ [entry])"
    using process_message_log by blast
  have "length (message_log (snd (process_message env rk m r))) \<le> 1000"
    using e by (simp add: last_n_length)
  moreover have "length (message_log r) < 1000 \<longrightarrow>
      message_log (snd (process_message env rk m r)) = message_log r @ [entry]"
    using e by (simp add: last_n_short)
  moreover have "length (message_log r) = 1000 \<longrightarrow>
      message_log (snd (process_message env rk m r)) = tl (message_log r) @ [entry]"
    using e by (simp add: last_n_full)
  moreover have "length (message_log r) \<le> 1000 \<longrightarrow>
        (\<exists>entries. map routing_key entries = map fst events
           \<and> message_log (consume env events r) = last_n 1000 (message_log r @ entries))"
    using consume_log [of r events env] by simp
  ultimately show ?thesis
    using e by (intro conjI exI [of _ entry]) simp_all
qed

theorem message_log_bounded_witness:
  "map routing_key (message_log (consume failing_env [(''a.b'', []), (''c.d'', [])] init_router))
     = [''a.b'', ''c.d'']"
proof -
  let ?evs = "[(''a.b'', []), (''c.d'', [])] :: (string \<times> jdict) list"
  have h: "length (message_log init_router) \<le> 1000"
    by (simp add: init_router_def)
  have "\<exists>entries. map routing_key entries = map fst ?evs
           \<and> message_log (consume failing_env ?evs init_router)
               = last_n 1000 (message_log init_router @ entries)"
    using message_log_bounded [of failing_env "''a.b''" "[]" init_router ?evs] h
    by blast
  then obtain entries where n: "map routing_key entries = map fst ?evs"
    and l: "message_log (consume failing_env ?evs init_router)
              = last_n 1000 (message_log init_router @ entries)"
    by blast
  from n have "length (map routing_key entries) = 2"
    by simp
  then have "length entries = 2"
    by simp
  with n show ?thesis
    unfolding l by (simp add: init_router_def last_n_def)
qed

section \<open>Properties of the resource store\<close>

subsection \<open>Version strings\<close>

text \<open>\<open>int(str(i)) == i\<close>: what \<open>update_resource\<close> reads back is what it wrote.\<close>

lemma below_ten: "(d::nat) < 10 \<Longrightarrow> d \<in> {0, 1, 2, 3, 4, 5, 6, 7, 8, 9}"
  by auto

lemma digit_val_digit_of: "d < 10 \<Longrightarrow> digit_val (digit_of d) = Some d"
  by (drule below_ten) (auto simp: digit_val_def digit_of_def)

lemma digit_of_not_sign: "d < 10 \<Longrightarrow> digit_of d \<noteq> CHR ''-'' \<and> digit_of d \<noteq> CHR ''+''"
  by (drule below_ten) (auto simp: digit_of_def)

lemma int_digits_append:
  "int_digits acc (xs @ ys) =
     (case int_digits acc xs of None \<Rightarrow> None | Some a \<Rightarrow> int_digits a ys)"
  by (induction xs arbitrary: acc) (auto split: option.splits)

lemma int_digits_str_nat: "int_digits 0 (str_nat n) = Some n"
proof (induction n rule: str_nat.induct)
  case (1 n)
  show ?case
  proof (cases "n < 10")
    case True
    then show ?thesis
      by (subst str_nat.simps) (simp add: digit_val_digit_of)
  next
    case False
    with 1 have "int_digits 0 (str_nat (n div 10)) = Some (n div 10)"
      by simp
    with False show ?thesis
      by (subst str_nat.simps) (simp add: int_digits_append digit_val_digit_of)
  qed
qed

lemma str_nat_hd: "\<exists>c cs. str_nat n = c # cs \<and> c \<noteq> CHR ''-'' \<and> c \<noteq> CHR ''+''"
proof (induction n rule: str_nat.induct)
  case (1 n)
  show ?case
  proof (cases "n < 10")
    case True
    then show ?thesis
      by (subst str_nat.simps) (simp add: digit_of_not_sign)
  next
    case False
    with 1 obtain c cs where "str_nat (n div 10) = c # cs" "c \<noteq> CHR ''-''" "c \<noteq> CHR ''+''"
      by auto
    with False show ?thesis
      by (subst str_nat.simps) simp
  qed
qed

lemma py_int_str_nat: "py_int (str_nat n) = Some (int n)"
proof -
  obtain c cs where s: "str_nat n = c # cs" "c \<noteq> CHR ''-''" "c \<noteq> CHR ''+''"
    using str_nat_hd by blast
  have "int_digits 0 (c # cs) = Some n"
    using int_digits_str_nat [of n] s by simp
  with s show ?thesis
    by (simp add: py_int_def)
qed

lemma py_int_str_int: "py_int (str_int i) = Some i"
proof (cases "i < 0")
  case True
  obtain c cs where s: "str_nat (nat (- i)) = c # cs"
    using str_nat_hd by blast
  with True show ?thesis
    using int_digits_str_nat [of "nat (- i)"]
    by (simp add: py_int_def str_int_def)
next
  case False
  then show ?thesis
    by (simp add: str_int_def py_int_str_nat)
qed

lemma str_int_one: "str_int 1 = ''1''"
  by (simp add: str_int_def str_nat.simps digit_of_def)
subsection \<open>Documents\<close>

lemma map_of_stamp:
  "map_of (stamp rid rt version now d) k =
     (if k = ''meta'' then Some (JObj [(''versionId'', JStr version), (''lastUpdated'', JStr now)])
      else if k = ''resourceType'' then Some (JStr rt)
      else if k = ''id'' then Some rid
      else map_of d k)"
  by (simp add: stamp_def update_conv')

subsection \<open>Create, read, update\<close>

lemma find_append_fresh:
  "\<forall>x \<in> set xs. \<not> P x \<Longrightarrow> P y \<Longrightarrow> find P (xs @ [y]) = Some y"
  by (induction xs) auto

lemma find_map_same:
  "(\<And>x. P (f x) = P x) \<Longrightarrow> find P (map f xs) = map_option f (find P xs)"
  by (induction xs) auto

lemma create_resource_result:
  assumes "create_resource env svc rt d = (Inr doc, svc')"
  shows "\<exists>rid. (case map_of d ''id'' of
                  None \<Rightarrow> JStr (new_uuid env)
                | Some v \<Rightarrow> if truthy v then v else JStr (new_uuid env)) = JStr rid
           \<and> rt \<in> set (supported_resources svc)
           \<and> rid \<notin> set (map row_id (fhir_table svc))
           \<and> doc = stamp (JStr rid) rt ''1'' (clock env) d
           \<and> svc' = svc\<lparr>fhir_table := fhir_table svc @
                  [\<lparr>row_id = rid, resource_type = rt, version_id = ''1'', data = doc\<rparr>]\<rparr>"
  using assms
  by (auto simp: create_resource_def Let_def split: if_splits json.splits)

lemma create_resource_succeeds:
  assumes "rt \<in> set (supported_resources svc)"
      and "(case map_of d ''id'' of
                  None \<Rightarrow> JStr (new_uuid env)
                | Some v \<Rightarrow> if truthy v then v else JStr (new_uuid env)) = JStr rid"
      and "rid \<notin> set (map row_id (fhir_table svc))"
  shows "\<exists>doc svc'. create_resource env svc rt d = (Inr doc, svc')"
  using assms by (simp add: create_resource_def Let_def)

lemma read_after_create:
  assumes "create_resource env svc rt d = (Inr doc, svc')"
      and "map_of doc ''id'' = Some (JStr rid)"
  shows "read_resource svc' rt rid = Inr doc"
proof -
  obtain rid' where r: "rid' \<notin> set (map row_id (fhir_table svc))"
     "doc = stamp (JStr rid') rt ''1'' (clock env) d"
     "svc' = svc\<lparr>fhir_table := fhir_table svc @
                  [\<lparr>row_id = rid', resource_type = rt, version_id = ''1'', data = doc\<rparr>]\<rparr>"
    using create_resource_result [OF assms(1)] by blast
  from r(2) assms(2) have "rid' = rid"
    by (simp add: map_of_stamp)
  let ?new = "\<lparr>row_id = rid, resource_type = rt, version_id = ''1'', data = doc\<rparr>"
  have "find (\<lambda>r. resource_type r = rt \<and> row_id r = rid) (fhir_table svc @ [?new]) = Some ?new"
    using r(1) \<open>rid' = rid\<close> by (intro find_append_fresh) auto
  with r(3) \<open>rid' = rid\<close> have "find_row svc' rt rid = Some ?new"
    by (simp add: find_row_def)
  then show ?thesis
    by (simp add: read_resource_def)
qed

lemma update_resource_result:
  assumes "find_row svc rt rid = Some row" and "py_int (version_id row) = Some v"
  shows "update_resource env svc rt rid d =
           (Inr (stamp (JStr rid) rt (str_int (v + 1)) (clock env) d),
            svc\<lparr>fhir_table :=
                  map (\<lambda>r. if row_id r = row_id row
                            then r\<lparr>data := stamp (JStr rid) rt (str_int (v + 1)) (clock env) d,
                                   version_id := str_int (v + 1)\<rparr> else r)
                      (fhir_table svc)\<rparr>)"
  using assms by (simp add: update_resource_def Let_def)

lemma find_row_after_update:
  assumes "find_row svc rt rid = Some row"
  shows "find_row (svc\<lparr>fhir_table :=
                  map (\<lambda>r. if row_id r = row_id row
                            then r\<lparr>data := doc, version_id := ver\<rparr> else r)
                      (fhir_table svc)\<rparr>) rt rid
         = Some (row\<lparr>data := doc, version_id := ver\<rparr>)"
proof -
  let ?f = "\<lambda>r. if row_id r = row_id row then r\<lparr>data := doc, version_id := ver\<rparr> else r"
  have "find (\<lambda>r. resource_type r = rt \<and> row_id r = rid) (map ?f (fhir_table svc))
          = map_option ?f (find (\<lambda>r. resource_type r = rt \<and> row_id r = rid) (fhir_table svc))"
    by (rule find_map_same) simp
  with assms show ?thesis
    by (simp add: find_row_def)
qed

lemma update_resource_not_found:
  "find_row svc rt rid = None \<Longrightarrow> update_resource env svc rt rid d = (Inl (not_found rt rid), svc)"
  by (simp add: update_resource_def)

lemma update_resource_success:
  assumes "update_resource env svc rt rid d = (Inr doc, svc')"
  shows "\<exists>row v. find_row svc rt rid = Some row \<and> py_int (version_id row) = Some v"
  using assms by (auto simp: update_resource_def Let_def split: option.splits)

lemma example_create:
  "create_resource example_env example_service ''Patient'' example_patient
     = (Inr stored_patient, service_with_patient)"
  by (simp add: create_resource_def example_env_def example_service_def new_service_def
        example_patient_def stored_patient_def service_with_patient_def patient_row_def stamp_def
        Let_def)

lemma example_update:
  "update_resource example_env service_with_patient ''Patient'' ''u-1'' gender_only
     = (Inr updated_patient,
        service_with_patient\<lparr>fhir_table := [patient_row\<lparr>data := updated_patient, version_id := ''2''\<rparr>]\<rparr>)"
  by (simp add: update_resource_def find_row_def example_env_def example_service_def new_service_def
        gender_only_def updated_patient_def service_with_patient_def patient_row_def stamp_def
        py_int_def digit_val_def str_int_def str_nat.simps digit_of_def Let_def)

text \<open>
  Claim C1. When \<open>create_resource\<close> returns a document for a type and an input document,
  the type is one of the supported ones, and \<open>read_resource\<close> with that type and the
  document's \<open>id\<close> returns the same document right afterwards. The document is the
  input with three members set by the server: \<open>id\<close> (the input's own \<open>id\<close> when it is a
  non-empty string, the generated identifier when the input has none),
  \<open>resourceType\<close> (the type) and \<open>meta\<close> (\<open>versionId\<close> \<open>"1"\<close> and the \<open>lastUpdated\<close> time
  stamp); every other member is as in the input.
\<close>

theorem create_then_read:
  assumes "create_resource env svc rt d = (Inr doc, svc')"
  shows "rt \<in> set (supported_resources svc)
     \<and> (\<exists>rid. map_of doc ''id'' = Some (JStr rid)
           \<and> read_resource svc' rt rid = Inr doc
           \<and> (map_of d ''id'' = None \<longrightarrow> rid = new_uuid env)
           \<and> (\<forall>s. map_of d ''id'' = Some (JStr s) \<and> s \<noteq> [] \<longrightarrow> rid = s))
     \<and> map_of doc ''resourceType'' = Some (JStr rt)
     \<and> map_of doc ''meta''
          = Some (JObj [(''versionId'', JStr ''1''), (''lastUpdated'', JStr (clock env))])
     \<and> (\<forall>k. k \<notin> {''id'', ''resourceType'', ''meta''} \<longrightarrow> map_of doc k = map_of d k)"
proof -
  obtain rid where r:
    "(case map_of d ''id'' of
        None \<Rightarrow> JStr (new_uuid env)
      | Some v \<Rightarrow> if truthy v then v else JStr (new_uuid env)) = JStr rid"
    "rt \<in> set (supported_resources svc)"
    "doc = stamp (JStr rid) rt ''1'' (clock env) d"
    using create_resource_result [OF assms] by blast
  have i: "map_of doc ''id'' = Some (JStr rid)"
    unfolding r(3) by (simp add: map_of_stamp)
  have rd: "read_resource svc' rt rid = Inr doc"
    using assms i by (rule read_after_create)
  have n: "map_of d ''id'' = None \<longrightarrow> rid = new_uuid env"
    using r(1) by auto
  have g: "\<forall>s. map_of d ''id'' = Some (JStr s) \<and> s \<noteq> [] \<longrightarrow> rid = s"
    using r(1) by auto
  have "\<exists>rid. map_of doc ''id'' = Some (JStr rid)
           \<and> read_resource svc' rt rid = Inr doc
           \<and> (map_of d ''id'' = None \<longrightarrow> rid = new_uuid env)
           \<and> (\<forall>s. map_of d ''id'' = Some (JStr s) \<and> s \<noteq> [] \<longrightarrow> rid = s)"
    using i rd n g by (intro exI [of _ rid] conjI)
  moreover have "map_of doc ''resourceType'' = Some (JStr rt)"
    unfolding r(3) by (simp add: map_of_stamp)
  moreover have "map_of doc ''meta''
          = Some (JObj [(''versionId'', JStr ''1''), (''lastUpdated'', JStr (clock env))])"
    unfolding r(3) by (simp add: map_of_stamp)
  moreover have "\<forall>k. k \<notin> {''id'', ''resourceType'', ''meta''} \<longrightarrow> map_of doc k = map_of d k"
    unfolding r(3) by (simp add: map_of_stamp)
  ultimately show ?thesis
    using r(2) by (intro conjI)
qed

theorem create_then_read_witness:
  "read_resource service_with_patient ''Patient'' ''u-1'' = Inr stored_patient
   \<and> map_of stored_patient ''id'' = Some (JStr ''u-1'')"
proof -
  note c = create_then_read [OF example_create]
  from c [THEN conjunct2, THEN conjunct1]
  obtain rid where i: "map_of stored_patient ''id'' = Some (JStr rid)"
    and rd: "read_resource service_with_patient ''Patient'' rid = Inr stored_patient"
    and n: "map_of example_patient ''id'' = None \<longrightarrow> rid = new_uuid example_env"
    by (elim exE conjE)
  have "map_of example_patient ''id'' = None"
    by (simp add: example_patient_def)
  with n have "rid = ''u-1''"
    by (simp add: example_env_def)
  with i rd show ?thesis
    by simp
qed

subsection \<open>Every table the operations build is well formed\<close>

lemma py_int_one: "py_int ''1'' = Some 1"
  by (simp add: py_int_def digit_val_def)

lemma jget_meta_stamp:
  "jget (map_of (stamp rid rt version now d) ''meta'') ''versionId'' = Some (JStr version)"
  by (simp add: map_of_stamp jget_def)

lemma create_table_ok:
  assumes "table_ok (fhir_table svc)"
  shows "table_ok (fhir_table (snd (create_resource env svc rt d)))"
proof (cases "create_resource env svc rt d")
  case (Pair res svc')
  show ?thesis
  proof (cases res)
    case (Inl e)
    with Pair have "svc' = svc"
      by (auto simp: create_resource_def Let_def split: if_splits json.splits)
    with Pair assms show ?thesis by simp
  next
    case (Inr doc)
    with Pair obtain rid where r: "rid \<notin> set (map row_id (fhir_table svc))"
      "doc = stamp (JStr rid) rt ''1'' (clock env) d"
      "svc' = svc\<lparr>fhir_table := fhir_table svc @
                  [\<lparr>row_id = rid, resource_type = rt, version_id = ''1'', data = doc\<rparr>]\<rparr>"
      using create_resource_result by blast
    have "row_ok \<lparr>row_id = rid, resource_type = rt, version_id = ''1'', data = doc\<rparr>"
      unfolding r(2) by (simp add: row_ok_def py_int_one map_of_stamp jget_def)
    with assms r(1) show ?thesis
      unfolding Pair r(3) by (simp add: table_ok_def)
  qed
qed

lemma find_row_Some:
  "find_row svc rt rid = Some row \<Longrightarrow>
     row \<in> set (fhir_table svc) \<and> resource_type row = rt \<and> row_id row = rid"
  unfolding find_row_def by (auto simp: find_Some_iff)

lemma distinct_same_id:
  "distinct (map row_id rows) \<Longrightarrow> r1 \<in> set rows \<Longrightarrow> r2 \<in> set rows \<Longrightarrow>
     row_id r1 = row_id r2 \<Longrightarrow> r1 = r2"
  by (meson distinct_map inj_onD)

lemma update_table_ok:
  assumes "table_ok (fhir_table svc)"
  shows "table_ok (fhir_table (snd (update_resource env svc rt rid d)))"
proof (cases "find_row svc rt rid")
  case None
  with assms show ?thesis by (simp add: update_resource_not_found)
next
  case (Some row)
  note f = find_row_Some [OF Some]
  from assms f have "row_ok row"
    by (simp add: table_ok_def list_all_iff)
  then obtain v where v: "py_int (version_id row) = Some v" "1 \<le> v"
    by (auto simp: row_ok_def split: option.splits)
  let ?doc = "stamp (JStr rid) rt (str_int (v + 1)) (clock env) d"
  let ?f = "\<lambda>r. if row_id r = row_id row
                  then r\<lparr>data := ?doc, version_id := str_int (v + 1)\<rparr> else r"
  have ids: "map row_id (map ?f xs) = map row_id xs" for xs
    by (induction xs) auto
  have d: "distinct (map row_id (map ?f (fhir_table svc)))"
    unfolding ids using assms by (simp add: table_ok_def)
  have new_ok: "row_ok (row\<lparr>data := ?doc, version_id := str_int (v + 1)\<rparr>)"
    using f v by (simp add: row_ok_def py_int_str_int map_of_stamp jget_def)
  have "row_ok (?f r)" if "r \<in> set (fhir_table svc)" for r
  proof (cases "row_id r = row_id row")
    case True
    with assms f that have "r = row"
      by (auto simp: table_ok_def intro: distinct_same_id)
    with new_ok show ?thesis by simp
  next
    case False
    with assms that show ?thesis
      by (simp add: table_ok_def list_all_iff)
  qed
  then have "list_all row_ok (map ?f (fhir_table svc))"
    unfolding list_all_iff set_map by blast
  moreover have "fhir_table (snd (update_resource env svc rt rid d)) = map ?f (fhir_table svc)"
    unfolding update_resource_result [OF Some v(1)] by simp
  ultimately show ?thesis
    unfolding table_ok_def using d by simp
qed

lemma delete_table_ok:
  assumes "table_ok (fhir_table svc)"
  shows "table_ok (fhir_table (snd (delete_resource svc rt rid)))"
  using assms
  by (auto simp: delete_resource_def table_ok_def list_all_iff distinct_map_filter
           split: option.splits)

lemma publish_table: "fhir_table (snd (publish_event env svc et res)) = fhir_table svc"
  by (auto simp: publish_event_def Let_def split: option.splits prod.splits)

lemma apply_op_table_ok: "table_ok (fhir_table svc) \<Longrightarrow> table_ok (fhir_table (apply_op svc op))"
  by (cases op) (simp_all add: create_table_ok update_table_ok delete_table_ok publish_table)

lemma run_ops_table_ok:
  "table_ok (fhir_table svc) \<Longrightarrow> table_ok (fhir_table (run_ops svc ops))"
  unfolding run_ops_def
  by (induction ops arbitrary: svc) (simp_all add: apply_op_table_ok)

lemma run_ops_from_empty:
  "fhir_table svc0 = [] \<Longrightarrow> table_ok (fhir_table (run_ops svc0 ops))"
  by (rule run_ops_table_ok) (simp add: table_ok_def)

lemma row_ok_version: "row_ok row \<Longrightarrow> \<exists>v. py_int (version_id row) = Some v \<and> 1 \<le> v"
  by (auto simp: row_ok_def split: option.splits)

lemma update_endpoint_not_found:
  "find_row svc rt rid = None \<Longrightarrow> update_endpoint env svc rt rid d = (Inl (not_found rt rid), svc)"
  by (simp add: update_endpoint_def update_resource_not_found)

lemma read_after_update:
  assumes "find_row svc rt rid = Some row" and "py_int (version_id row) = Some v"
      and "update_resource env svc rt rid d = (Inr doc, svc')"
  shows "find_row svc' rt rid = Some (row\<lparr>data := doc, version_id := str_int (v + 1)\<rparr>)
     \<and> read_resource svc' rt rid = Inr doc
     \<and> doc = stamp (JStr rid) rt (str_int (v + 1)) (clock env) d"
proof -
  from assms(3) have d: "doc = stamp (JStr rid) rt (str_int (v + 1)) (clock env) d"
    and s: "svc' = svc\<lparr>fhir_table :=
                  map (\<lambda>r. if row_id r = row_id row
                            then r\<lparr>data := doc, version_id := str_int (v + 1)\<rparr> else r)
                      (fhir_table svc)\<rparr>"
    unfolding update_resource_result [OF assms(1,2)] by auto
  have "find_row svc' rt rid = Some (row\<lparr>data := doc, version_id := str_int (v + 1)\<rparr>)"
    unfolding s by (rule find_row_after_update [OF assms(1)])
  with d show ?thesis
    by (simp add: read_resource_def)
qed

text \<open>
  Claim C2. In a service whose table was built by the store's operations from an empty
  one, the version of every stored row is a number \<open>v\<close> in decimal, and
  \<open>update_resource\<close> on the row's type and id returns a document whose
  \<open>meta.versionId\<close> is the decimal string of \<open>v + 1\<close>; the row then holds that document
  and that version, and a read returns the document. When no row has the type and
  id, \<open>update_resource\<close> fails with the 404 error and the service is as before: no
  row is created or changed and no event is published, also through the endpoint.
\<close>

theorem update_increments_version:
  assumes "fhir_table svc0 = []" and "svc = run_ops svc0 ops"
  shows "(\<forall>row. find_row svc rt rid = Some row \<longrightarrow>
            (\<exists>v doc svc'. py_int (version_id row) = Some v
               \<and> update_resource env svc rt rid d = (Inr doc, svc')
               \<and> jget (map_of doc ''meta'') ''versionId'' = Some (JStr (str_int (v + 1)))
               \<and> find_row svc' rt rid = Some (row\<lparr>data := doc, version_id := str_int (v + 1)\<rparr>)
               \<and> read_resource svc' rt rid = Inr doc))
       \<and> (find_row svc rt rid = None \<longrightarrow>
            update_resource env svc rt rid d = (Inl (not_found rt rid), svc)
            \<and> update_endpoint env svc rt rid d = (Inl (not_found rt rid), svc))"
proof (intro conjI allI impI)
  fix row
  assume f: "find_row svc rt rid = Some row"
  have "table_ok (fhir_table svc)"
    unfolding assms(2) using assms(1) by (rule run_ops_from_empty)
  with find_row_Some [OF f] have "row_ok row"
    by (simp add: table_ok_def list_all_iff)
  then obtain v where v: "py_int (version_id row) = Some v"
    using row_ok_version by blast
  obtain doc svc' where u: "update_resource env svc rt rid d = (Inr doc, svc')"
    unfolding update_resource_result [OF f v] by simp
  note r = read_after_update [OF f v u]
  from r have "jget (map_of doc ''meta'') ''versionId'' = Some (JStr (str_int (v + 1)))"
    by (simp add: jget_meta_stamp)
  with v u r show "\<exists>v doc svc'. py_int (version_id row) = Some v
               \<and> update_resource env svc rt rid d = (Inr doc, svc')
               \<and> jget (map_of doc ''meta'') ''versionId'' = Some (JStr (str_int (v + 1)))
               \<and> find_row svc' rt rid = Some (row\<lparr>data := doc, version_id := str_int (v + 1)\<rparr>)
               \<and> read_resource svc' rt rid = Inr doc"
    by (intro exI [of _ v] exI [of _ doc] exI [of _ svc']) simp
next
  assume "find_row svc rt rid = None"
  then show "update_resource env svc rt rid d = (Inl (not_found rt rid), svc)"
    by (rule update_resource_not_found)
next
  assume "find_row svc rt rid = None"
  then show "update_endpoint env svc rt rid d = (Inl (not_found rt rid), svc)"
    by (rule update_endpoint_not_found)
qed

lemma example_run:
  "service_with_patient = run_ops example_service [Create example_env ''Patient'' example_patient]"
  by (simp add: run_ops_def example_create)

lemma example_find: "find_row service_with_patient ''Patient'' ''u-1'' = Some patient_row"
  by (simp add: find_row_def service_with_patient_def patient_row_def)

lemma example_find_none: "find_row service_with_patient ''Patient'' ''u-9'' = None"
  by (simp add: find_row_def service_with_patient_def patient_row_def)

theorem update_increments_version_witness:
  "jget (map_of updated_patient ''meta'') ''versionId'' = Some (JStr (str_int (1 + 1)))
   \<and> read_resource
        (snd (update_resource example_env service_with_patient ''Patient'' ''u-1'' gender_only))
        ''Patient'' ''u-1'' = Inr updated_patient
   \<and> update_resource example_env service_with_patient ''Patient'' ''u-9'' gender_only
        = (Inl (not_found ''Patient'' ''u-9''), service_with_patient)"
proof -
  have e: "fhir_table example_service = []"
    by (simp add: example_service_def new_service_def)
  note t = update_increments_version [OF e example_run, of "''Patient''" _ example_env gender_only]
  from t [of "''u-1''", THEN conjunct1] example_find
  obtain v doc svc' where v: "py_int (version_id patient_row) = Some v"
    and u: "update_resource example_env service_with_patient ''Patient'' ''u-1'' gender_only
              = (Inr doc, svc')"
    and j: "jget (map_of doc ''meta'') ''versionId'' = Some (JStr (str_int (v + 1)))"
    and r: "read_resource svc' ''Patient'' ''u-1'' = Inr doc"
    by (elim allE [of _ patient_row] impE exE conjE)
  from v have "v = 1"
    by (simp add: patient_row_def py_int_one)
  moreover from u have "doc = updated_patient"
    by (simp add: example_update)
  moreover from t [of "''u-9''", THEN conjunct2] example_find_none
  have "update_resource example_env service_with_patient ''Patient'' ''u-9'' gender_only
        = (Inl (not_found ''Patient'' ''u-9''), service_with_patient)"
    by simp
  ultimately show ?thesis
    using u j r by simp
qed

text \<open>
  Claim C3, as amended. A successful update replaces the stored document by the caller's
  document with the members \<open>id\<close>, \<open>resourceType\<close> and \<open>meta\<close> set by the store: the
  path's id, the path's type, and the incremented version with a new time stamp,
  whatever the caller's document says for them. Every other member of the stored
  document is the caller's: a member of the old document that the caller's document
  does not have, other than those three, is gone.
\<close>

theorem update_replaces_document:
  assumes "update_resource env svc rt rid d = (Inr doc, svc')"
  shows "read_resource svc' rt rid = Inr doc
     \<and> (\<forall>k. k \<noteq> ''id'' \<and> k \<noteq> ''resourceType'' \<and> k \<noteq> ''meta'' \<longrightarrow> map_of doc k = map_of d k)
     \<and> (\<forall>old k. find_row svc rt rid = Some old \<and> map_of (data old) k \<noteq> None
            \<and> map_of d k = None \<and> k \<noteq> ''id'' \<and> k \<noteq> ''resourceType'' \<and> k \<noteq> ''meta''
            \<longrightarrow> map_of doc k = None)
     \<and> map_of doc ''id'' = Some (JStr rid)
     \<and> map_of doc ''resourceType'' = Some (JStr rt)
     \<and> (\<exists>old v. find_row svc rt rid = Some old \<and> py_int (version_id old) = Some v
           \<and> map_of doc ''meta''
                = Some (JObj [(''versionId'', JStr (str_int (v + 1))),
                              (''lastUpdated'', JStr (clock env))]))"
proof -
  obtain row v where f: "find_row svc rt rid = Some row" and v: "py_int (version_id row) = Some v"
    using update_resource_success [OF assms] by blast
  note r = read_after_update [OF f v assms]
  then have d: "doc = stamp (JStr rid) rt (str_int (v + 1)) (clock env) d"
    by simp
  have k: "\<forall>k. k \<noteq> ''id'' \<and> k \<noteq> ''resourceType'' \<and> k \<noteq> ''meta'' \<longrightarrow> map_of doc k = map_of d k"
    unfolding d by (simp add: map_of_stamp)
  have m: "map_of doc ''meta''
             = Some (JObj [(''versionId'', JStr (str_int (v + 1))), (''lastUpdated'', JStr (clock env))])"
    unfolding d by (simp add: map_of_stamp)
  show ?thesis
  proof (intro conjI)
    show "read_resource svc' rt rid = Inr doc"
      using r by simp
    show "\<forall>k. k \<noteq> ''id'' \<and> k \<noteq> ''resourceType'' \<and> k \<noteq> ''meta'' \<longrightarrow> map_of doc k = map_of d k"
      by (rule k)
    show "\<forall>old k. find_row svc rt rid = Some old \<and> map_of (data old) k \<noteq> None
            \<and> map_of d k = None \<and> k \<noteq> ''id'' \<and> k \<noteq> ''resourceType'' \<and> k \<noteq> ''meta''
            \<longrightarrow> map_of doc k = None"
      using k by metis
    show "map_of doc ''id'' = Some (JStr rid)"
      unfolding d by (simp add: map_of_stamp)
    show "map_of doc ''resourceType'' = Some (JStr rt)"
      unfolding d by (simp add: map_of_stamp)
    show "\<exists>old v. find_row svc rt rid = Some old \<and> py_int (version_id old) = Some v
           \<and> map_of doc ''meta''
                = Some (JObj [(''versionId'', JStr (str_int (v + 1))),
                              (''lastUpdated'', JStr (clock env))])"
      using f v m by (intro exI [of _ row] exI [of _ v]) simp
  qed
qed

theorem update_replaces_document_witness:
  "map_of (data patient_row) ''birthDate'' = Some (JStr ''1980-01-01'')
   \<and> map_of gender_only ''birthDate'' = None
   \<and> map_of updated_patient ''birthDate'' = None
   \<and> map_of updated_patient ''gender'' = Some (JStr ''male'')
   \<and> read_resource
        (service_with_patient\<lparr>fhir_table :=
           [patient_row\<lparr>data := updated_patient, version_id := ''2''\<rparr>]\<rparr>)
        ''Patient'' ''u-1'' = Inr updated_patient"
proof -
  note t = update_replaces_document [OF example_update]
  have b: "map_of (data patient_row) ''birthDate'' = Some (JStr ''1980-01-01'')"
    by (simp add: patient_row_def stored_patient_def)
  have g: "map_of gender_only ''birthDate'' = None"
    by (simp add: gender_only_def)
  have "map_of updated_patient ''birthDate'' = None"
    using t [THEN conjunct2, THEN conjunct2, THEN conjunct1] example_find b g
    by (elim allE [of _ patient_row] allE [of _ "''birthDate''"]) simp
  moreover have "map_of updated_patient ''gender'' = map_of gender_only ''gender''"
    using t [THEN conjunct2, THEN conjunct1]
    by (elim allE [of _ "''gender''"]) simp
  ultimately show ?thesis
    using t [THEN conjunct1] b g by (simp add: gender_only_def)
qed

text \<open>
  Claim C3 as it was stated fails for the three members the store sets itself: the
  stored patient has an \<open>id\<close>, the caller's document (only \<open>gender\<close>) has none, and the
  document stored by the update has the \<open>id\<close> again.
\<close>

theorem update_keeps_id_counterexample:
  "find_row service_with_patient ''Patient'' ''u-1'' = Some patient_row
   \<and> map_of (data patient_row) ''id'' = Some (JStr ''u-1'')
   \<and> map_of gender_only ''id'' = None
   \<and> update_resource example_env service_with_patient ''Patient'' ''u-1'' gender_only
        = (Inr updated_patient,
           service_with_patient\<lparr>fhir_table :=
             [patient_row\<lparr>data := updated_patient, version_id := ''2''\<rparr>]\<rparr>)
   \<and> map_of updated_patient ''id'' = Some (JStr ''u-1'')"
  using example_find example_update
  by (simp add: patient_row_def stored_patient_def gender_only_def updated_patient_def)

text \<open>
  Claim C10. The key of the table is the \<open>id\<close> column alone. In every table built by the
  store's operations from an empty one, no two rows have the same id, whatever their
  types. Creating a resource of a supported type with the id of a stored row, of
  whatever type, fails with \<open>IntegrityError\<close> and leaves the service as it was.
\<close>

theorem resource_ids_unique:
  "(fhir_table svc0 = [] \<longrightarrow>
      distinct (map row_id (fhir_table (run_ops svc0 ops)))
      \<and> (\<forall>r1 \<in> set (fhir_table (run_ops svc0 ops)).
          \<forall>r2 \<in> set (fhir_table (run_ops svc0 ops)). row_id r1 = row_id r2 \<longrightarrow> r1 = r2))
   \<and> (r \<in> set (fhir_table svc) \<and> map_of d ''id'' = Some (JStr (row_id r)) \<and> row_id r \<noteq> []
      \<longrightarrow> (\<exists>e. create_resource env svc rt d = (Inl e, svc))
          \<and> (rt \<in> set (supported_resources svc)
               \<longrightarrow> create_resource env svc rt d = (Inl IntegrityError, svc)))"
proof (intro conjI impI ballI)
  assume "fhir_table svc0 = []"
  then have "table_ok (fhir_table (run_ops svc0 ops))"
    by (rule run_ops_from_empty)
  then show d: "distinct (map row_id (fhir_table (run_ops svc0 ops)))"
    by (simp add: table_ok_def)
  fix r1 r2
  assume "r1 \<in> set (fhir_table (run_ops svc0 ops))" "r2 \<in> set (fhir_table (run_ops svc0 ops))"
    "row_id r1 = row_id r2"
  with d show "r1 = r2"
    by (rule distinct_same_id)
next
  assume a: "r \<in> set (fhir_table svc) \<and> map_of d ''id'' = Some (JStr (row_id r)) \<and> row_id r \<noteq> []"
  then show "\<exists>e. create_resource env svc rt d = (Inl e, svc)"
    by (simp add: create_resource_def Let_def)
  assume "rt \<in> set (supported_resources svc)"
  with a show "create_resource env svc rt d = (Inl IntegrityError, svc)"
    by (simp add: create_resource_def Let_def)
qed

theorem resource_ids_unique_witness:
  "distinct (map row_id (fhir_table service_with_patient))
   \<and> create_resource example_env service_with_patient ''Observation'' observation_with_patient_id
       = (Inl IntegrityError, service_with_patient)"
proof -
  have e: "fhir_table example_service = []"
    by (simp add: example_service_def new_service_def)
  note t = resource_ids_unique [where ?svc0.0 = example_service
             and ops = "[Create example_env ''Patient'' example_patient]"
             and r = patient_row and svc = service_with_patient
             and d = observation_with_patient_id and rt = "''Observation''" and env = example_env]
  have "distinct (map row_id (fhir_table service_with_patient))"
    using t [THEN conjunct1] e unfolding example_run [symmetric] by simp
  moreover have "patient_row \<in> set (fhir_table service_with_patient)
       \<and> map_of observation_with_patient_id ''id'' = Some (JStr (row_id patient_row))
       \<and> row_id patient_row \<noteq> []"
    by (simp add: service_with_patient_def patient_row_def observation_with_patient_id_def)
  moreover have "''Observation'' \<in> set (supported_resources service_with_patient)"
    by (simp add: service_with_patient_def example_service_def new_service_def)
  ultimately show ?thesis
    using t [THEN conjunct2] by simp
qed

subsection \<open>Events\<close>

lemma publish_no_channel:
  "\<not> rabbitmq_channel svc \<Longrightarrow> publish_event env svc et res = (None, svc)"
  by (simp add: publish_event_def)

text \<open>With a channel and a broker that answers, the event goes out under the routing key
  \<open><service>.<lower-cased type>.<action>\<close>.\<close>

lemma example_publish:
  "publish_event example_env connected_service ''created'' stored_patient
     = (None,
        connected_service\<lparr>published :=
          [(''ehr.patient.created'',
            [(''specversion'', JStr ''1.0''),
             (''type'', JStr ''org.hl7.fhir.r4.Patient.created''),
             (''source'', JStr ''/ehr''),
             (''id'', JStr ''u-2''),
             (''time'', JStr ''T2''),
             (''datacontenttype'', JStr ''application/fhir+json''),
             (''data'', JObj stored_patient)])]\<rparr>)"
  by (simp add: publish_event_def event_type_names_def example_env_def connected_service_def
        new_service_def stored_patient_def lower_char_def Let_def)

lemma create_resource_channel:
  "rabbitmq_channel (snd (create_resource env svc rt d)) = rabbitmq_channel svc"
  by (auto simp: create_resource_def Let_def split: json.splits)

lemma update_resource_channel:
  "rabbitmq_channel (snd (update_resource env svc rt rid d)) = rabbitmq_channel svc"
  by (auto simp: update_resource_def Let_def split: option.splits)

lemma create_endpoint_table:
  "fhir_table (snd (create_endpoint env svc rt d)) = fhir_table (snd (create_resource env svc rt d))"
proof (cases "create_resource env svc rt d")
  case (Pair res svc1)
  show ?thesis
  proof (cases res)
    case (Inl e)
    with Pair show ?thesis by (simp add: create_endpoint_def)
  next
    case (Inr doc)
    obtain exc svc2 where p: "publish_event env svc1 ''created'' doc = (exc, svc2)"
      by (cases "publish_event env svc1 ''created'' doc")
    then have "fhir_table svc2 = fhir_table svc1"
      using publish_table [of env svc1 "''created''" doc] by simp
    with Pair Inr p show ?thesis
      by (cases exc) (simp_all add: create_endpoint_def)
  qed
qed

lemma update_endpoint_table:
  "fhir_table (snd (update_endpoint env svc rt rid d))
     = fhir_table (snd (update_resource env svc rt rid d))"
proof (cases "update_resource env svc rt rid d")
  case (Pair res svc1)
  show ?thesis
  proof (cases res)
    case (Inl e)
    with Pair show ?thesis by (simp add: update_endpoint_def)
  next
    case (Inr doc)
    obtain exc svc2 where p: "publish_event env svc1 ''updated'' doc = (exc, svc2)"
      by (cases "publish_event env svc1 ''updated'' doc")
    then have "fhir_table svc2 = fhir_table svc1"
      using publish_table [of env svc1 "''updated''" doc] by simp
    with Pair Inr p show ?thesis
      by (cases exc) (simp_all add: update_endpoint_def)
  qed
qed

text \<open>
  Claim C8, as amended. On a service that holds no broker channel (the broker could not
  be reached when the service started), \<open>publish_event\<close> returns at once without
  raising, and a create or update whose store operation succeeded reports success
  with the stored document. With or without a channel, and whether or not the broker
  call raises, the table after the endpoint is the table after the store operation: a
  failed publish never undoes the write.
\<close>

theorem publish_skipped_without_channel:
  "(\<not> rabbitmq_channel svc \<longrightarrow> publish_event env svc et res = (None, svc))
   \<and> (\<not> rabbitmq_channel svc \<and> create_resource env svc rt d = (Inr doc, svc')
        \<longrightarrow> create_endpoint env svc rt d = (Inr (201, doc), svc'))
   \<and> (\<not> rabbitmq_channel svc \<and> update_resource env svc rt rid d = (Inr doc, svc')
        \<longrightarrow> update_endpoint env svc rt rid d = (Inr (200, doc), svc'))
   \<and> fhir_table (snd (create_endpoint env svc rt d))
        = fhir_table (snd (create_resource env svc rt d))
   \<and> fhir_table (snd (update_endpoint env svc rt rid d))
        = fhir_table (snd (update_resource env svc rt rid d))"
proof (intro conjI impI)
  assume "\<not> rabbitmq_channel svc"
  then show "publish_event env svc et res = (None, svc)"
    by (rule publish_no_channel)
next
  assume a: "\<not> rabbitmq_channel svc \<and> create_resource env svc rt d = (Inr doc, svc')"
  then have "\<not> rabbitmq_channel svc'"
    using create_resource_channel [of env svc rt d] by simp
  then have "publish_event env svc' ''created'' doc = (None, svc')"
    by (rule publish_no_channel)
  with a show "create_endpoint env svc rt d = (Inr (201, doc), svc')"
    by (simp add: create_endpoint_def)
next
  assume a: "\<not> rabbitmq_channel svc \<and> update_resource env svc rt rid d = (Inr doc, svc')"
  then have "\<not> rabbitmq_channel svc'"
    using update_resource_channel [of env svc rt rid d] by simp
  then have "publish_event env svc' ''updated'' doc = (None, svc')"
    by (rule publish_no_channel)
  with a show "update_endpoint env svc rt rid d = (Inr (200, doc), svc')"
    by (simp add: update_endpoint_def)
next
  show "fhir_table (snd (create_endpoint env svc rt d))
        = fhir_table (snd (create_resource env svc rt d))"
    by (rule create_endpoint_table)
next
  show "fhir_table (snd (update_endpoint env svc rt rid d))
        = fhir_table (snd (update_resource env svc rt rid d))"
    by (rule update_endpoint_table)
qed

theorem publish_skipped_without_channel_witness:
  "create_endpoint broker_down_env example_service ''Patient'' example_patient
     = (Inr (201, stored_patient), service_with_patient)"
proof -
  have c: "\<not> rabbitmq_channel example_service"
    by (simp add: example_service_def new_service_def)
  have e: "create_resource broker_down_env example_service ''Patient'' example_patient
     = (Inr stored_patient, service_with_patient)"
    by (simp add: create_resource_def broker_down_env_def example_service_def new_service_def
          example_patient_def stored_patient_def service_with_patient_def patient_row_def stamp_def
          Let_def)
  from publish_skipped_without_channel
         [where svc = example_service and env = broker_down_env and rt = "''Patient''"
            and d = example_patient and doc = stored_patient and svc' = service_with_patient,
          THEN conjunct2, THEN conjunct1] c e
  show ?thesis by simp
qed

text \<open>
  Claim C8 as it was stated fails on a service that holds a channel: the exception of
  the broker call leaves \<open>publish_event\<close> and ends the request, although the patient
  has been stored.
\<close>

theorem broker_exception_counterexample:
  "rabbitmq_channel connected_service
   \<and> create_resource broker_down_env connected_service ''Patient'' example_patient
       = (Inr stored_patient, connected_service\<lparr>fhir_table := [patient_row]\<rparr>)
   \<and> publish_event broker_down_env (connected_service\<lparr>fhir_table := [patient_row]\<rparr>)
        ''created'' stored_patient
       = (Some (BrokerError ''connection lost''), connected_service\<lparr>fhir_table := [patient_row]\<rparr>)
   \<and> create_endpoint broker_down_env connected_service ''Patient'' example_patient
       = (Inl (BrokerError ''connection lost''), connected_service\<lparr>fhir_table := [patient_row]\<rparr>)"
proof -
  have c: "create_resource broker_down_env connected_service ''Patient'' example_patient
       = (Inr stored_patient, connected_service\<lparr>fhir_table := [patient_row]\<rparr>)"
    by (simp add: create_resource_def broker_down_env_def connected_service_def new_service_def
          example_patient_def stored_patient_def patient_row_def stamp_def Let_def)
  have p: "publish_event broker_down_env (connected_service\<lparr>fhir_table := [patient_row]\<rparr>)
        ''created'' stored_patient
       = (Some (BrokerError ''connection lost''), connected_service\<lparr>fhir_table := [patient_row]\<rparr>)"
    by (simp add: publish_event_def event_type_names_def broker_down_env_def connected_service_def
          new_service_def stored_patient_def Let_def)
  have "rabbitmq_channel connected_service"
    by (simp add: connected_service_def new_service_def)
  with c p show ?thesis
    by (simp add: create_endpoint_def)
qed

subsection \<open>Search\<close>

lemma like_percent_Nil: "like_match (CHR ''%'' # p) [] = like_match p []"
  by (simp add: like_match.simps)

lemma like_percent_Cons:
  "like_match (CHR ''%'' # p) (c # cs) = (like_match p (c # cs) \<or> like_match (CHR ''%'' # p) cs)"
  by (simp add: like_match.simps)

lemma like_plain_Nil: "\<not> like_special a \<Longrightarrow> like_match (a # p) [] = False"
  by (subst like_match.simps) (simp add: like_special_def)

lemma like_plain_Cons:
  "\<not> like_special a \<Longrightarrow> like_match (a # p) (c # cs) = (c = a \<and> like_match p cs)"
  by (subst like_match.simps) (simp add: like_special_def)

lemma like_percent_all: "like_match ''%'' s"
  by (induction s) (simp_all add: like_percent_Nil like_percent_Cons like_match.simps(1))

lemma like_plain_prefix:
  "\<forall>c \<in> set v. \<not> like_special c \<Longrightarrow> like_match (v @ ''%'') s \<longleftrightarrow> prefix v s"
proof (induction v arbitrary: s)
  case Nil
  then show ?case by (simp add: like_percent_all)
next
  case (Cons a v)
  then show ?case
    by (cases s) (auto simp: like_plain_Nil like_plain_Cons)
qed

lemma like_percent_suffix:
  "like_match (CHR ''%'' # p) s \<longleftrightarrow> (\<exists>t. suffix t s \<and> like_match p t)"
proof (induction s)
  case Nil
  then show ?case by (simp add: like_percent_Nil)
next
  case (Cons c cs)
  have "like_match (CHR ''%'' # p) (c # cs)
          \<longleftrightarrow> like_match p (c # cs) \<or> like_match (CHR ''%'' # p) cs"
    by (rule like_percent_Cons)
  also have "\<dots> \<longleftrightarrow> like_match p (c # cs) \<or> (\<exists>t. suffix t cs \<and> like_match p t)"
    using Cons.IH by simp
  also have "\<dots> \<longleftrightarrow> (\<exists>t. suffix t (c # cs) \<and> like_match p t)"
    by (auto simp: suffix_Cons)
  finally show ?case .
qed

lemma contains_plain_is_sublist:
  assumes "\<forall>c \<in> set v. \<not> like_special c"
  shows "like_match (CHR ''%'' # v @ ''%'') s \<longleftrightarrow> sublist v s"
proof -
  have "like_match (CHR ''%'' # v @ ''%'') s \<longleftrightarrow> (\<exists>t. suffix t s \<and> like_match (v @ ''%'') t)"
    by (rule like_percent_suffix)
  also have "\<dots> \<longleftrightarrow> (\<exists>t. suffix t s \<and> prefix v t)"
    using like_plain_prefix [OF assms] by simp
  also have "\<dots> \<longleftrightarrow> sublist v s"
    by (simp add: sublist_altdef')
  finally show ?thesis .
qed

lemma param_filter_plain:
  "\<forall>c \<in> set v. \<not> like_special c \<Longrightarrow> param_filter render key v d = spec_param_filter render key v d"
  by (simp add: spec_param_filter_def param_filter_def text_contains_def contains_plain_is_sublist
           split: option.splits)

lemma param_filter_unrecognized:
  "key \<notin> {''patient'', ''subject'', ''status'', ''identifier'', ''category'', ''code''}
     \<Longrightarrow> param_filter render key v d"
  by (simp add: param_filter_def)

lemma apply_filters_filter:
  "apply_filters render params q =
     filter (\<lambda>r. list_all (\<lambda>(key, val). startswith_underscore key \<or>
                        (case val of None \<Rightarrow> True
                                   | Some v \<Rightarrow> param_filter render key v (data r))) params) q"
proof (induction params arbitrary: q)
  case Nil
  show ?case by simp
next
  case (Cons p params)
  obtain key val where p: "p = (key, val)" by (cases p)
  show ?case
  proof (cases "startswith_underscore key")
    case True
    with p Cons.IH show ?thesis by simp
  next
    case False
    show ?thesis
    proof (cases val)
      case None
      with p False Cons.IH show ?thesis by simp
    next
      case (Some v)
      with p False Cons.IH show ?thesis
        by (simp add: conj_commute)
    qed
  qed
qed

lemma search_resources_total:
  assumes "0 \<le> limit" and "0 \<le> offset"
  shows "\<exists>b. search_resources render svc rt params limit offset = Inr b
     \<and> total b = int (length (filter
          (\<lambda>r. resource_type r = rt \<and>
               list_all (\<lambda>(key, val). startswith_underscore key \<or>
                           (case val of None \<Rightarrow> True
                                      | Some v \<Rightarrow> param_filter render key v (data r))) params)
          (fhir_table svc)))"
  using assms
  by (simp add: search_resources_def Let_def apply_filters_filter)

lemma search_resources_spec_total:
  assumes "0 \<le> limit" and "0 \<le> offset"
      and "\<forall>(key, val) \<in> set params. \<forall>v. key = ''subject'' \<and> val = Some v
              \<longrightarrow> (\<forall>c \<in> set v. \<not> like_special c)"
  shows "\<exists>b. search_resources render svc rt params limit offset = Inr b
     \<and> total b = spec_total render svc rt params"
proof -
  have "(case val of None \<Rightarrow> True | Some v \<Rightarrow> param_filter render key v d)
      = (case val of None \<Rightarrow> True | Some v \<Rightarrow> spec_param_filter render key v d)"
    if "(key, val) \<in> set params" for key val d
  proof (cases val)
    case None
    then show ?thesis by simp
  next
    case (Some v)
    show ?thesis
    proof (cases "key = ''subject''")
      case True
      with that Some assms(3) have "\<forall>c \<in> set v. \<not> like_special c"
        by blast
      with Some show ?thesis
        by (simp add: param_filter_plain)
    next
      case False
      with Some show ?thesis
        by (simp add: spec_param_filter_def)
    qed
  qed
  then have "list_all (\<lambda>(key, val). startswith_underscore key \<or>
                 (case val of None \<Rightarrow> True | Some v \<Rightarrow> param_filter render key v d)) params
       = list_all (\<lambda>(key, val). startswith_underscore key \<or>
                 (case val of None \<Rightarrow> True | Some v \<Rightarrow> spec_param_filter render key v d)) params"
    for d
    unfolding list_all_iff by (intro ball_cong refl) auto
  then show ?thesis
    using search_resources_total [OF assms(1,2), of render svc rt params]
    by (simp add: spec_total_def)
qed

lemma example_reference:
  "astext no_render (jget (map_of (data observation_row) ''subject'') ''reference'')
     = Some ''Patient/1''"
  by (simp add: observation_row_def jget_def astext_def)

lemma example_like: "like_match ''%Patient_1%'' ''Patient/1''"
  by (simp add: like_match.simps)

lemma example_not_sublist: "\<not> sublist ''Patient_1'' ''Patient/1''"
  by (simp add: sublist_code)

text \<open>
  Claim C4. The claim holds whenever \<open>limit\<close> and \<open>offset\<close> are not negative and no
  \<open>subject\<close> value contains \<open>%\<close>, \<open>_\<close> or a backslash (\<open>search_resources_spec_total\<close>). It
  fails for a \<open>subject\<close> value with such a character, which the \<open>LIKE\<close> pattern built by
  \<open>contains\<close> takes as a wildcard: with one observation whose subject reference is
  \<open>Patient/1\<close>, the search for \<open>subject=Patient_1\<close> returns the total 1 and the
  observation, although \<open>Patient_1\<close> does not occur in \<open>Patient/1\<close> and the total of the
  specification is 0.
\<close>

theorem search_subject_wildcard:
  "search_resources no_render service_with_observation ''Observation''
       [(''subject'', Some ''Patient_1'')] 100 0
     = Inr \<lparr>bundle_resourceType = ''Bundle'', bundle_type = ''searchset'', total = 1,
            link = [(''self'', ''/fhir/r4/Observation'')],
            entry = [(''Observation/o1'', data observation_row)]\<rparr>
   \<and> spec_total no_render service_with_observation ''Observation''
       [(''subject'', Some ''Patient_1'')] = 0
   \<and> jget (map_of (data observation_row) ''subject'') ''reference'' = Some (JStr ''Patient/1'')
   \<and> \<not> sublist ''Patient_1'' ''Patient/1''"
proof -
  have t: "fhir_table service_with_observation = [observation_row]"
    by (simp add: service_with_observation_def)
  have r: "resource_type observation_row = ''Observation''" "row_id observation_row = ''o1''"
    by (simp_all add: observation_row_def)
  have f: "param_filter no_render ''subject'' ''Patient_1'' (data observation_row)"
    using example_like by (simp add: param_filter_def text_contains_def example_reference)
  have s: "\<not> spec_param_filter no_render ''subject'' ''Patient_1'' (data observation_row)"
    using example_not_sublist by (simp add: spec_param_filter_def example_reference)
  have "search_resources no_render service_with_observation ''Observation''
       [(''subject'', Some ''Patient_1'')] 100 0
     = Inr \<lparr>bundle_resourceType = ''Bundle'', bundle_type = ''searchset'', total = 1,
            link = [(''self'', ''/fhir/r4/Observation'')],
            entry = [(''Observation/o1'', data observation_row)]\<rparr>"
    by (simp add: search_resources_def Let_def t r f startswith_underscore_def)
  moreover have "spec_total no_render service_with_observation ''Observation''
       [(''subject'', Some ''Patient_1'')] = 0"
    by (simp add: spec_total_def t r s startswith_underscore_def)
  moreover have "jget (map_of (data observation_row) ''subject'') ''reference''
                   = Some (JStr ''Patient/1'')"
    by (simp add: observation_row_def jget_def)
  ultimately show ?thesis
    using example_not_sublist by simp
qed

subsection \<open>The capability statement\<close>

lemma advertised_resources_eq:
  "advertised_resources (get_capability_statement env svc)
     = map capability_resource (supported_resources svc)"
  by (simp add: advertised_resources_def get_capability_statement_def member_def elements_def)

lemma advertised_type: "member ''type'' (capability_resource rt) = JStr rt"
  by (simp add: member_def capability_resource_def)

lemma advertised_interactions_eq:
  "advertised_interactions (capability_resource rt)
     = [JStr ''read'', JStr ''vread'', JStr ''update'', JStr ''delete'', JStr ''create'',
        JStr ''search-type'']"
  by (simp add: advertised_interactions_def capability_resource_def member_def elements_def)

lemma advertised_search_params_eq:
  "advertised_search_params (capability_resource rt)
     = [JStr ''_id'', JStr ''identifier'', JStr ''patient'', JStr ''status'']"
  by (simp add: advertised_search_params_def capability_resource_def member_def elements_def)

lemma underscore_param_ignored:
  "startswith_underscore key \<Longrightarrow> apply_filters render [(key, val)] q = q"
  by simp

text \<open>
  Claim C9, as amended. The capability statement lists every configured resource type, in
  order, and advertises the same fixed lists for each of them: the interaction codes
  \<open>read\<close>, \<open>vread\<close>, \<open>update\<close>, \<open>delete\<close>, \<open>create\<close> and \<open>search-type\<close>, and the search
  parameters \<open>_id\<close>, \<open>identifier\<close>, \<open>patient\<close> and \<open>status\<close>. The lists do not follow the
  query engine: a parameter whose name starts with an underscore, such as \<open>_id\<close>,
  never filters, and a parameter with any name other than \<open>patient\<close>, \<open>subject\<close>,
  \<open>status\<close>, \<open>identifier\<close>, \<open>category\<close> and \<open>code\<close> accepts every document.
\<close>

theorem capability_statement_fixed_lists:
  "map (member ''type'') (advertised_resources (get_capability_statement env svc))
     = map JStr (supported_resources svc)
   \<and> (\<forall>res \<in> set (advertised_resources (get_capability_statement env svc)).
        advertised_interactions res
          = [JStr ''read'', JStr ''vread'', JStr ''update'', JStr ''delete'', JStr ''create'',
             JStr ''search-type'']
        \<and> advertised_search_params res
          = [JStr ''_id'', JStr ''identifier'', JStr ''patient'', JStr ''status''])
   \<and> (startswith_underscore key \<longrightarrow> apply_filters render [(key, val)] q = q)
   \<and> (key \<notin> {''patient'', ''subject'', ''status'', ''identifier'', ''category'', ''code''}
        \<longrightarrow> param_filter render key v d)"
proof (intro conjI ballI impI)
  show "map (member ''type'') (advertised_resources (get_capability_statement env svc))
     = map JStr (supported_resources svc)"
    by (simp add: advertised_resources_eq advertised_type)
next
  fix res
  assume "res \<in> set (advertised_resources (get_capability_statement env svc))"
  then obtain rt where r: "res = capability_resource rt"
    unfolding advertised_resources_eq by auto
  show "advertised_interactions res
          = [JStr ''read'', JStr ''vread'', JStr ''update'', JStr ''delete'', JStr ''create'',
             JStr ''search-type'']"
    unfolding r by (rule advertised_interactions_eq)
  show "advertised_search_params res
          = [JStr ''_id'', JStr ''identifier'', JStr ''patient'', JStr ''status'']"
    unfolding r by (rule advertised_search_params_eq)
next
  assume "startswith_underscore key"
  then show "apply_filters render [(key, val)] q = q"
    by (rule underscore_param_ignored)
next
  assume "key \<notin> {''patient'', ''subject'', ''status'', ''identifier'', ''category'', ''code''}"
  then show "param_filter render key v d"
    by (rule param_filter_unrecognized)
qed

theorem capability_statement_fixed_lists_witness:
  "map (member ''type'') (advertised_resources (get_capability_statement example_env example_service))
     = [JStr ''Patient'', JStr ''Observation'']
   \<and> advertised_search_params (capability_resource ''Patient'')
     = [JStr ''_id'', JStr ''identifier'', JStr ''patient'', JStr ''status'']
   \<and> apply_filters no_render [(''_id'', Some ''zz'')] [patient_row] = [patient_row]"
proof -
  note t = capability_statement_fixed_lists
             [where env = example_env and svc = example_service and key = "''_id''"
                and render = no_render and val = "Some ''zz''" and q = "[patient_row]"]
  have s: "supported_resources example_service = [''Patient'', ''Observation'']"
    by (simp add: example_service_def new_service_def)
  have m: "capability_resource ''Patient''
             \<in> set (advertised_resources (get_capability_statement example_env example_service))"
    by (simp add: advertised_resources_eq s)
  have u: "startswith_underscore ''_id''"
    by (simp add: startswith_underscore_def)
  from t [THEN conjunct1] have "map (member ''type'')
      (advertised_resources (get_capability_statement example_env example_service))
     = [JStr ''Patient'', JStr ''Observation'']"
    unfolding s by simp
  moreover from t [THEN conjunct2, THEN conjunct1] m
  have "advertised_search_params (capability_resource ''Patient'')
     = [JStr ''_id'', JStr ''identifier'', JStr ''patient'', JStr ''status'']"
    by blast
  moreover from t [THEN conjunct2, THEN conjunct2, THEN conjunct1] u
  have "apply_filters no_render [(''_id'', Some ''zz'')] [patient_row] = [patient_row]"
    by (rule mp)
  ultimately show ?thesis
    by (intro conjI)
qed

text \<open>
  Claim C9 as it was stated fails: for the type \<open>Patient\<close> of the example service the
  statement advertises \<open>vread\<close> and \<open>search-type\<close> among the interactions; it
  advertises \<open>_id\<close>, which the search ignores (the search for an \<open>_id\<close> that no row has
  returns the stored observation); and it does not advertise \<open>subject\<close>, which the
  search does recognize (the search for a subject that the observation does not have
  rejects it).
\<close>

theorem capability_statement_counterexample:
  "advertised_resources (get_capability_statement example_env example_service)
     = [capability_resource ''Patient'', capability_resource ''Observation'']
   \<and> advertised_interactions (capability_resource ''Patient'')
     = [JStr ''read'', JStr ''vread'', JStr ''update'', JStr ''delete'', JStr ''create'',
        JStr ''search-type'']
   \<and> advertised_search_params (capability_resource ''Patient'')
     = [JStr ''_id'', JStr ''identifier'', JStr ''patient'', JStr ''status'']
   \<and> apply_filters no_render [(''_id'', Some ''zz'')] [observation_row] = [observation_row]
   \<and> apply_filters no_render [(''subject'', Some ''Patient/2'')] [observation_row] = []"
proof -
  have "advertised_resources (get_capability_statement example_env example_service)
     = [capability_resource ''Patient'', capability_resource ''Observation'']"
    by (simp add: advertised_resources_eq example_service_def new_service_def)
  moreover have "apply_filters no_render [(''_id'', Some ''zz'')] [observation_row]
                   = [observation_row]"
    by (simp add: startswith_underscore_def)
  moreover have "\<not> like_match ''%Patient/2%'' ''Patient/1''"
    by (simp add: like_match.simps)
  then have "apply_filters no_render [(''subject'', Some ''Patient/2'')] [observation_row] = []"
    by (simp add: startswith_underscore_def param_filter_def text_contains_def example_reference)
  ultimately show ?thesis
    by (simp add: advertised_interactions_eq advertised_search_params_eq)
qed

end
